theory Spec2Isabelle
  imports Complex_Main
begin

text \<open>
  The location and weather acquisition pipeline of the dashboard: the hooks
  \<open>useAppLocation\<close> (\<open>fetchLocationName\<close>, \<open>getLocation\<close>) and \<open>useWeather\<close> (\<open>fetchWeather\<close>).
  An asynchronous function becomes a function from what the outside world answers (the
  geolocation, each HTTP request, the clock, \<open>JSON.parse\<close>) to the new hook state, the new
  local storage and the list of the effects it has caused, in order.
\<close>

section \<open>JavaScript values used by the resolvers\<close>

text \<open>
  A JavaScript number as far as the resolvers look at it: they only compare numbers and
  test them with \<open>isFinite\<close> and for truthiness, so a number is a real, an infinity or NaN.
\<close>

datatype jsnum = Fin real | PosInf | NegInf | NaN

fun isFinite :: "jsnum \<Rightarrow> bool" where
  "isFinite (Fin _) = True"
| "isFinite _ = False"

text \<open>The operator \<open><\<close> on numbers: every comparison with NaN is false.\<close>

fun js_less :: "jsnum \<Rightarrow> jsnum \<Rightarrow> bool" where
  "js_less NaN _ = False"
| "js_less _ NaN = False"
| "js_less (Fin a) (Fin b) = (a < b)"
| "js_less NegInf NegInf = False"
| "js_less NegInf _ = True"
| "js_less _ NegInf = False"
| "js_less PosInf _ = False"
| "js_less _ PosInf = True"

text \<open>Truthiness: \<open>0\<close> and NaN are falsy numbers, \<open>undefined\<close> (None) is falsy, the empty
  string is falsy.\<close>

fun truthy_num :: "jsnum \<Rightarrow> bool" where
  "truthy_num (Fin r) = (r \<noteq> 0)"
| "truthy_num NaN = False"
| "truthy_num _ = True"

fun truthy_opt :: "jsnum option \<Rightarrow> bool" where
  "truthy_opt None = False"
| "truthy_opt (Some n) = truthy_num n"

fun truthy_str :: "string option \<Rightarrow> bool" where
  "truthy_str None = False"
| "truthy_str (Some s) = (s \<noteq> [])"

text \<open>A thrown value: an \<open>Error\<close> object with its name and message, or a value that is not
  an instance of \<open>Error\<close> (the geolocation API rejects with such a value).\<close>

datatype js_error = JsError string string | NonError

fun instanceof_Error :: "js_error \<Rightarrow> bool" where
  "instanceof_Error (JsError _ _) = True"
| "instanceof_Error NonError = False"

fun err_name :: "js_error \<Rightarrow> string" where
  "err_name (JsError n _) = n"
| "err_name NonError = []"

fun err_message :: "js_error \<Rightarrow> string" where
  "err_message (JsError _ m) = m"
| "err_message NonError = []"

definition Error :: "string \<Rightarrow> js_error" where
  "Error m = JsError ''Error'' m"

text \<open>The test \<open>error instanceof Error && error.name === 'AbortError'\<close>.\<close>

definition is_AbortError :: "js_error \<Rightarrow> bool" where
  "is_AbortError e = (instanceof_Error e \<and> err_name e = ''AbortError'')"

text \<open>Decimal rendering of an HTTP status inside a template string.\<close>

definition digit_char :: "nat \<Rightarrow> char" where
  "digit_char d = ''0123456789'' ! d"

function string_of_nat :: "nat \<Rightarrow> string" where
  "string_of_nat n = (if n < 10 then [digit_char n]
                      else string_of_nat (n div 10) @ [digit_char (n mod 10)])"
  by pat_completeness auto
termination
  by (relation "measure (\<lambda>n. n)") auto

declare string_of_nat.simps [simp del]

section \<open>Constants (src/lib/constants.ts)\<close>

definition TIMEOUT_WEATHER_API :: nat where "TIMEOUT_WEATHER_API = 10000"
definition TIMEOUT_REVERSE_GEOCODE :: nat where "TIMEOUT_REVERSE_GEOCODE = 8000"
definition TIMEOUT_IP_API :: nat where "TIMEOUT_IP_API = 5000"
definition TIMEOUT_GEOLOCATION :: nat where "TIMEOUT_GEOLOCATION = 15000"

definition CACHE_DURATION_LOCATION :: int where
  "CACHE_DURATION_LOCATION = 10 * 60 * 1000"

definition MAX_RETRIES :: nat where "MAX_RETRIES = 3"
definition DELAY :: nat where "DELAY = 1000"

section \<open>The outside world\<close>

text \<open>
  What a \<open>fetch\<close> followed by \<open>response.json()\<close> can do: the promise of \<open>fetch\<close> rejects
  (an \<open>AbortError\<close> when the timeout aborts the request, a \<open>TypeError\<close> when the transport
  fails), or a response arrives with its \<open>ok\<close> flag, its status and a body that either
  fails to decode or decodes to a payload. The \<open>AbortError\<close> is a \<open>DOMException\<close>, whose
  prototype inherits from \<open>Error.prototype\<close>: it is an instance of \<open>Error\<close>.
\<close>

datatype 'a http_result =
    Rejected js_error
  | Response bool nat "js_error + 'a"

definition AbortError :: js_error where
  "AbortError = JsError ''AbortError'' ''The operation was aborted.''"

definition NetworkError :: js_error where
  "NetworkError = JsError ''TypeError'' ''Failed to fetch''"

text \<open>Reading a property of \<open>undefined\<close> or \<open>null\<close>; the text of the message depends on
  the engine.\<close>

definition PropertyOfUndefined :: js_error where
  "PropertyOfUndefined = JsError ''TypeError'' ''Cannot read properties of undefined''"

datatype request =
    ReverseGeocode jsnum jsnum
  | IpApi
  | WeatherApi string jsnum jsnum
  | OpenMeteo jsnum jsnum

datatype toast =
    GeolocationFallbackToast
  | LocationErrorToast string
  | WeatherErrorToast string

text \<open>Everything a resolver does to the outside, in the order it does it.\<close>

datatype event =
    GetCurrentPosition
  | Fetch request nat
  | Sleep nat
  | Toast toast
  | Track string

text \<open>The calls that leave the page: the device's geolocation and the HTTP requests.\<close>

fun is_external_call :: "event \<Rightarrow> bool" where
  "is_external_call GetCurrentPosition = True"
| "is_external_call (Fetch _ _) = True"
| "is_external_call _ = False"

section \<open>Location Resolver: reverse geocoding (useAppLocation.ts, fetchLocationName)\<close>

record LocationData =
  latitude :: jsnum
  longitude :: jsnum
  displayName :: string

record LocationCache =
  timestamp :: int
  data :: LocationData

text \<open>The fields of the reverse-geocoding payload that the code reads. \<open>informative\<close> is
  \<open>data.localityInfo?.informative\<close>, empty when either link of the chain is missing (the
  optional chain then yields \<open>undefined\<close>, as \<open>find\<close> does on no match).\<close>

record informative_entry =
  description :: string
  name :: "string option"

record geocode_data =
  informative :: "informative_entry list"
  locality :: "string option"
  city :: "string option"
  principalSubdivision :: "string option"
  countryName :: "string option"

text \<open>The coordinate check of \<open>fetchLocationName\<close>, \<open>getLocation\<close> and \<open>fetchWeather\<close>:
  \<open>!isFinite(lat) || !isFinite(lon) || lat < -90 || lat > 90 || lon < -180 || lon > 180\<close>.\<close>

definition invalid_coordinates :: "jsnum \<Rightarrow> jsnum \<Rightarrow> bool" where
  "invalid_coordinates lat lon =
     (\<not> isFinite lat \<or> \<not> isFinite lon \<or>
      js_less lat (Fin (- 90)) \<or> js_less (Fin 90) lat \<or>
      js_less lon (Fin (- 180)) \<or> js_less (Fin 180) lon)"

text \<open>\<open>if (x) parts.k = x\<close>: the key stays undefined unless the value is truthy.\<close>

definition keep_truthy :: "string option \<Rightarrow> string option" where
  "keep_truthy v = (if truthy_str v then v else None)"

definition street_of :: "geocode_data \<Rightarrow> string option" where
  "street_of d =
     (case find (\<lambda>i. description i = ''street'') (informative d) of
        None \<Rightarrow> None
      | Some i \<Rightarrow> name i)"

definition parts_array :: "geocode_data \<Rightarrow> string option list" where
  "parts_array d =
     [keep_truthy (street_of d), keep_truthy (locality d), keep_truthy (city d),
      keep_truthy (principalSubdivision d), keep_truthy (countryName d)]"

text \<open>\<open>Array.prototype.indexOf\<close>: the first index of the value, or \<open>-1\<close>.\<close>

fun indexOf_from :: "nat \<Rightarrow> 'a list \<Rightarrow> 'a \<Rightarrow> int" where
  "indexOf_from i [] v = - 1"
| "indexOf_from i (x # xs) v = (if x = v then int i else indexOf_from (Suc i) xs v)"

definition indexOf :: "'a list \<Rightarrow> 'a \<Rightarrow> int" where
  "indexOf xs v = indexOf_from 0 xs v"

text \<open>\<open>Array.prototype.filter\<close> with the callback's three arguments \<open>(value, index, self)\<close>.\<close>

fun filter_from :: "('a \<Rightarrow> nat \<Rightarrow> 'a list \<Rightarrow> bool) \<Rightarrow> 'a list \<Rightarrow> nat \<Rightarrow> 'a list \<Rightarrow> 'a list" where
  "filter_from p self i [] = []"
| "filter_from p self i (v # vs) =
     (if p v i self then v # filter_from p self (Suc i) vs
      else filter_from p self (Suc i) vs)"

definition array_filter :: "('a \<Rightarrow> nat \<Rightarrow> 'a list \<Rightarrow> bool) \<Rightarrow> 'a list \<Rightarrow> 'a list" where
  "array_filter p self = filter_from p self 0 self"

text \<open>\<open>Array.prototype.join\<close> on strings.\<close>

fun join :: "string \<Rightarrow> string list \<Rightarrow> string" where
  "join sep [] = []"
| "join sep [x] = x"
| "join sep (x # y # ys) = x @ sep @ join sep (y # ys)"

text \<open>\<open>[...].filter((value, index, self) => value && self.indexOf(value) === index)\<close>;
  every element that survives is a defined string.\<close>

definition finalParts :: "geocode_data \<Rightarrow> string list" where
  "finalParts d =
     map the (array_filter (\<lambda>value index self. truthy_str value \<and> indexOf self value = int index)
                (parts_array d))"

text \<open>
  One pass through the body of a retry loop ends in one of three ways: the function
  returns, it throws, or the loop waits \<open>DELAY * attempt\<close> and goes to the next attempt.
\<close>

datatype 'a step = Return 'a | Throw js_error | Continue

text \<open>The \<open>catch\<close> block shared by both retry loops: the last attempt rethrows, an
  \<open>AbortError\<close> throws the loop's timeout error at once, anything else waits and retries.\<close>

definition on_catch :: "string \<Rightarrow> nat \<Rightarrow> js_error \<Rightarrow> 'a step" where
  "on_catch timeout_message attempt e =
     (if attempt = MAX_RETRIES then Throw e
      else if is_AbortError e then Throw (Error timeout_message)
      else Continue)"

definition geocode_attempt :: "(nat \<Rightarrow> geocode_data option http_result) \<Rightarrow> nat \<Rightarrow> string step" where
  "geocode_attempt net attempt =
     (case net attempt of
        Rejected e \<Rightarrow> on_catch ''Reverse geocoding request timeout'' attempt e
      | Response ok status body \<Rightarrow>
          if \<not> ok then
            (if attempt = MAX_RETRIES
             then on_catch ''Reverse geocoding request timeout'' attempt
                    (Error (''Reverse geocode response not OK: '' @ string_of_nat status))
             else Continue)
          else
            (case body of
               Inl e \<Rightarrow> on_catch ''Reverse geocoding request timeout'' attempt e
             | Inr None \<Rightarrow>
                 on_catch ''Reverse geocoding request timeout'' attempt
                   (Error ''No location parts found'')
             | Inr (Some d) \<Rightarrow>
                 if length (finalParts d) > 0 then Return (join '', '' (finalParts d))
                 else on_catch ''Reverse geocoding request timeout'' attempt
                        (Error ''No location parts found'')))"

text \<open>The loop \<open>for (let attempt = 1; attempt <= MAX_RETRIES; attempt++)\<close>; the
  \<open>throw\<close> after the loop is the last branch.\<close>

function fetchLocationName_loop ::
  "(nat \<Rightarrow> geocode_data option http_result) \<Rightarrow> jsnum \<Rightarrow> jsnum \<Rightarrow> nat \<Rightarrow>
     event list \<times> (js_error + string)" where
  "fetchLocationName_loop net lat lon attempt =
     (if attempt \<le> MAX_RETRIES then
        (case geocode_attempt net attempt of
           Return n \<Rightarrow> ([Fetch (ReverseGeocode lat lon) TIMEOUT_REVERSE_GEOCODE], Inr n)
         | Throw e \<Rightarrow> ([Fetch (ReverseGeocode lat lon) TIMEOUT_REVERSE_GEOCODE], Inl e)
         | Continue \<Rightarrow>
             (case fetchLocationName_loop net lat lon (Suc attempt) of
                (evs, r) \<Rightarrow>
                  (Fetch (ReverseGeocode lat lon) TIMEOUT_REVERSE_GEOCODE #
                   Sleep (DELAY * attempt) # evs, r)))
      else ([], Inl (Error ''Failed to fetch location name after retries'')))"
  by pat_completeness auto
termination
  by (relation "measure (\<lambda>(net, lat, lon, attempt). Suc MAX_RETRIES - attempt)") auto

declare fetchLocationName_loop.simps [simp del]

definition fetchLocationName ::
  "(nat \<Rightarrow> geocode_data option http_result) \<Rightarrow> jsnum \<Rightarrow> jsnum \<Rightarrow>
     event list \<times> (js_error + string)" where
  "fetchLocationName net lat lon =
     (if invalid_coordinates lat lon
      then ([], Inl (Error ''Invalid coordinates for reverse geocoding''))
      else fetchLocationName_loop net lat lon 1)"

section \<open>Location Resolver: getLocation\<close>

record ip_data =
  ip_latitude :: "jsnum option"
  ip_longitude :: "jsnum option"
  ip_city :: "string option"
  ip_region :: "string option"
  ip_country_name :: "string option"

text \<open>The literal after \<open>||\<close> in the IP branch, byte for byte as the source file has it.\<close>

definition unknown_location :: string where
  "unknown_location = ''Ubicaci'' @ [CHR 0xE8, CHR 0xB4, CHR 0xB8] @ ''n desconocida''"

text \<open>\<open>[data.city, data.region, data.country_name].filter(Boolean).join(', ') || '...'\<close>\<close>

definition ip_displayName :: "ip_data \<Rightarrow> string" where
  "ip_displayName d =
     (let joined = join '', '' (map the (filter truthy_str [ip_city d, ip_region d, ip_country_name d]))
      in if joined \<noteq> [] then joined else unknown_location)"

definition ip_attempt :: "(nat \<Rightarrow> ip_data option http_result) \<Rightarrow> nat \<Rightarrow> LocationData step" where
  "ip_attempt net attempt =
     (case net attempt of
        Rejected e \<Rightarrow> on_catch ''IP location request timeout'' attempt e
      | Response ok status body \<Rightarrow>
          if \<not> ok then
            (if attempt = MAX_RETRIES
             then on_catch ''IP location request timeout'' attempt
                    (Error (''IP API response not OK: '' @ string_of_nat status))
             else Continue)
          else
            (case body of
               Inl e \<Rightarrow> on_catch ''IP location request timeout'' attempt e
             | Inr None \<Rightarrow> on_catch ''IP location request timeout'' attempt PropertyOfUndefined
             | Inr (Some d) \<Rightarrow>
                 (case (ip_latitude d, ip_longitude d) of
                    (Some la, Some lo) \<Rightarrow>
                      if \<not> truthy_num la \<or> \<not> truthy_num lo \<or> invalid_coordinates la lo
                      then on_catch ''IP location request timeout'' attempt
                             (Error ''IP API did not return valid coordinates'')
                      else Return \<lparr>latitude = la, longitude = lo, displayName = ip_displayName d\<rparr>
                  | _ \<Rightarrow> on_catch ''IP location request timeout'' attempt
                           (Error ''IP API did not return valid coordinates''))))"

text \<open>The IP loop. When it ends without a location, \<open>newLocation\<close> is still undefined and
  the \<open>throw\<close> that follows the \<open>try\<close> fires: that is the last branch.\<close>

function ip_loop ::
  "(nat \<Rightarrow> ip_data option http_result) \<Rightarrow> nat \<Rightarrow> event list \<times> (js_error + LocationData)" where
  "ip_loop net attempt =
     (if attempt \<le> MAX_RETRIES then
        (case ip_attempt net attempt of
           Return loc \<Rightarrow> ([Fetch IpApi TIMEOUT_IP_API, Track ''locationIPFallback''], Inr loc)
         | Throw e \<Rightarrow> ([Fetch IpApi TIMEOUT_IP_API], Inl e)
         | Continue \<Rightarrow>
             (case ip_loop net (Suc attempt) of
                (evs, r) \<Rightarrow> (Fetch IpApi TIMEOUT_IP_API # Sleep (DELAY * attempt) # evs, r)))
      else ([], Inl (Error ''Failed to obtain location from both geolocation and IP fallback'')))"
  by pat_completeness auto
termination
  by (relation "measure (\<lambda>(net, attempt). Suc MAX_RETRIES - attempt)") auto

declare ip_loop.simps [simp del]

text \<open>What \<open>navigator.geolocation\<close> does: it is missing, it rejects (denied, timeout), or it
  gives \<open>position.coords\<close>.\<close>

datatype geo_result = GeoUnsupported | GeoRejected | GeoPosition jsnum jsnum

record location_env =
  JSON_parse :: "string \<Rightarrow> js_error + LocationCache"
  JSON_stringify :: "LocationCache \<Rightarrow> string"
  now_at_check :: int
  now_at_store :: int
  geolocation :: geo_result
  reverse_geocode_api :: "nat \<Rightarrow> geocode_data option http_result"
  ip_api :: "nat \<Rightarrow> ip_data option http_result"

text \<open>The inner \<open>try\<close>: \<open>getPosition\<close>, the coordinate check, \<open>fetchLocationName\<close>.\<close>

definition precise_location :: "location_env \<Rightarrow> event list \<times> (js_error + LocationData)" where
  "precise_location env =
     (case geolocation env of
        GeoUnsupported \<Rightarrow> ([], Inl (Error ''Geolocation not supported''))
      | GeoRejected \<Rightarrow> ([GetCurrentPosition], Inl NonError)
      | GeoPosition la lo \<Rightarrow>
          if invalid_coordinates la lo
          then ([GetCurrentPosition], Inl (Error ''Invalid coordinates from geolocation''))
          else
            (case fetchLocationName (reverse_geocode_api env) la lo of
               (evs, Inl e) \<Rightarrow> (GetCurrentPosition # evs, Inl e)
             | (evs, Inr n) \<Rightarrow>
                 (GetCurrentPosition # evs @ [Track ''locationGeolocationSuccess''],
                  Inr \<lparr>latitude = la, longitude = lo, displayName = n\<rparr>)))"

text \<open>The inner \<open>try\<close> with its \<open>catch (geoError)\<close>: the IP fallback.\<close>

definition resolve_location :: "location_env \<Rightarrow> event list \<times> (js_error + LocationData)" where
  "resolve_location env =
     (case precise_location env of
        (evs, Inr loc) \<Rightarrow> (evs, Inr loc)
      | (evs, Inl geoError) \<Rightarrow>
          (case ip_loop (ip_api env) 1 of
             (evs2, r) \<Rightarrow> (evs @ [Toast GeolocationFallbackToast] @ evs2, r)))"

record hook_state =
  error :: "string option"
  loading :: bool

record location_state = hook_state +
  location :: "LocationData option"

type_synonym localStorage = "string \<rightharpoonup> string"

definition cacheKey :: string where
  "cacheKey = ''user-location''"

text \<open>The cache check: \<open>Inl\<close> when \<open>JSON.parse\<close> throws, \<open>Inr (Some d)\<close> on a fresh entry,
  \<open>Inr None\<close> when the code goes on to resolve.\<close>

definition cache_lookup :: "location_env \<Rightarrow> localStorage \<Rightarrow> js_error + LocationData option" where
  "cache_lookup env storage =
     (case storage cacheKey of
        None \<Rightarrow> Inr None
      | Some cached \<Rightarrow>
          if cached = [] then Inr None
          else
            (case JSON_parse env cached of
               Inl e \<Rightarrow> Inl e
             | Inr c \<Rightarrow>
                 if now_at_check env - timestamp c < CACHE_DURATION_LOCATION
                 then Inr (Some (data c))
                 else Inr None))"

text \<open>The outer \<open>catch (err)\<close> and \<open>finally\<close>.\<close>

definition location_failed ::
  "location_state \<Rightarrow> localStorage \<Rightarrow> event list \<Rightarrow> js_error \<Rightarrow>
     (location_state \<times> localStorage) \<times> event list" where
  "location_failed st storage evs err =
     (let errorMessage = (if instanceof_Error err then err_message err else ''Location N/A'')
      in ((st\<lparr>error := Some errorMessage, loading := False\<rparr>, storage),
          evs @ (if instanceof_Error err then [Track ''locationError''] else [])
              @ [Toast (LocationErrorToast errorMessage)]))"

text \<open>\<open>getLocation(force)\<close>. \<open>localStorage\<close> is a map from keys to strings, so \<open>setItem\<close> always
  succeeds here (a full storage is outside the model).\<close>

definition getLocation ::
  "location_env \<Rightarrow> bool \<Rightarrow> location_state \<times> localStorage \<Rightarrow>
     (location_state \<times> localStorage) \<times> event list" where
  "getLocation env force w =
     (case w of (st0, storage) \<Rightarrow>
        let st = st0\<lparr>loading := True, error := None\<rparr> in
        (case (if force then Inr None else cache_lookup env storage) of
           Inl err \<Rightarrow> location_failed st storage [] err
         | Inr (Some d) \<Rightarrow> ((st\<lparr>location := Some d, loading := False\<rparr>, storage), [])
         | Inr None \<Rightarrow>
             (case resolve_location env of
                (evs, Inl err) \<Rightarrow> location_failed st storage evs err
              | (evs, Inr newLocation) \<Rightarrow>
                  ((st\<lparr>location := Some newLocation, loading := False\<rparr>,
                    storage(cacheKey \<mapsto>
                      JSON_stringify env \<lparr>timestamp = now_at_store env, data = newLocation\<rparr>)),
                   evs))))"

text \<open>The hook calls \<open>getLocation()\<close> on mount and \<open>getLocation(true)\<close> from its interval
  timer. A sequence of invocations, each with the world it runs in and its \<open>force\<close>
  argument: the state and the storage one invocation leaves are those the next one finds.\<close>

fun run_invocations ::
  "(location_env \<times> bool) list \<Rightarrow> location_state \<times> localStorage \<Rightarrow>
     location_state \<times> localStorage" where
  "run_invocations [] w = w"
| "run_invocations ((env, force) # rest) w =
     run_invocations rest (fst (getLocation env force w))"

section \<open>Weather Resolver (useWeather.ts, fetchWeather)\<close>

text \<open>The record handed to \<open>setWeather\<close>. The interface declares every field a number; at
  run time a field read from a payload that lacks it is \<open>undefined\<close>, which is \<open>None\<close> here.\<close>

record WeatherData =
  temperature :: "jsnum option"
  minTemperature :: "jsnum option"
  maxTemperature :: "jsnum option"
  humidity :: "jsnum option"
  uvIndex :: "jsnum option"
  weatherCode :: "jsnum option"
  rainProbability :: "jsnum option"
  airQuality :: "jsnum option"

text \<open>The primary provider's payload, as far as the code reads it. \<open>condition\<close> and
  \<open>air_quality\<close> are objects that may be missing (outer \<open>None\<close>); inside them the code reads
  \<open>code\<close> and \<open>['us-epa-index']\<close>. \<open>wa_forecastday\<close> is \<open>data.forecast?.forecastday\<close>, empty when
  a link of the chain is missing; each element is given by its \<open>day\<close> property.\<close>

record weatherapi_current =
  temp_c :: "jsnum option"
  current_humidity :: "jsnum option"
  uv :: "jsnum option"
  condition :: "jsnum option option"
  air_quality :: "jsnum option option"

record weatherapi_day =
  mintemp_c :: "jsnum option"
  maxtemp_c :: "jsnum option"
  daily_chance_of_rain :: "jsnum option"

record weatherapi_payload =
  wa_current :: "weatherapi_current option"
  wa_forecastday :: "weatherapi_day option list"

text \<open>The secondary provider's payload.\<close>

record openmeteo_current =
  temperature_2m :: "jsnum option"
  relative_humidity_2m :: "jsnum option"
  uv_index :: "jsnum option"
  weather_code :: "jsnum option"
  precipitation_probability :: "jsnum option"

record openmeteo_daily =
  temperature_2m_max :: "jsnum list option"
  temperature_2m_min :: "jsnum list option"

record openmeteo_payload =
  om_current :: "openmeteo_current option"
  om_daily :: "openmeteo_daily option"

record weather_env =
  weatherApiKey :: "string option"
  weatherapi :: "weatherapi_payload option http_result"
  openmeteo :: "openmeteo_payload option http_result"

text \<open>\<open>x || d\<close> on a possibly undefined number.\<close>

definition or_default :: "jsnum option \<Rightarrow> jsnum \<Rightarrow> jsnum option" where
  "or_default v d = (if truthy_opt v then v else Some d)"

text \<open>\<open>xs[0]\<close>: undefined on an empty array.\<close>

fun first_element :: "'a list \<Rightarrow> 'a option" where
  "first_element [] = None"
| "first_element (x # _) = Some x"

text \<open>The inner \<open>try\<close> around the primary provider. \<open>Some w\<close> is the \<open>return\<close> after
  \<open>setWeather\<close>; \<open>None\<close> is every way of reaching the fallback, the \<open>catch\<close> included (a
  rejected fetch, a body that does not decode, a \<open>TypeError\<close> on \<open>forecast.day\<close> or
  \<open>current.condition\<close>).\<close>

definition primary_weather ::
  "weather_env \<Rightarrow> jsnum \<Rightarrow> jsnum \<Rightarrow> event list \<times> WeatherData option" where
  "primary_weather env lat lon =
     (case weatherApiKey env of
        None \<Rightarrow> ([], None)
      | Some key \<Rightarrow>
          if key = [] then ([], None)
          else
            ([Fetch (WeatherApi key lat lon) TIMEOUT_WEATHER_API],
             (case weatherapi env of
                Rejected e \<Rightarrow> None
              | Response ok status body \<Rightarrow>
                  if \<not> ok then None
                  else
                    (case body of
                       Inl e \<Rightarrow> None
                     | Inr None \<Rightarrow> None
                     | Inr (Some d) \<Rightarrow>
                         (case (wa_current d, first_element (wa_forecastday d)) of
                            (Some current, Some forecast) \<Rightarrow>
                              (case (forecast, condition current) of
                                 (Some day, Some code) \<Rightarrow>
                                   Some \<lparr>temperature = temp_c current,
                                         minTemperature = mintemp_c day,
                                         maxTemperature = maxtemp_c day,
                                         humidity = current_humidity current,
                                         uvIndex = uv current,
                                         weatherCode = code,
                                         rainProbability = daily_chance_of_rain day,
                                         airQuality =
                                           or_default
                                             (case air_quality current of
                                                None \<Rightarrow> None | Some q \<Rightarrow> q)
                                             (Fin 1)\<rparr>
                               | _ \<Rightarrow> None)
                          | _ \<Rightarrow> None)))))"

text \<open>The tests the primary branch passes before it builds its record, in the order of
  the source: a non-empty key, a response that is \<open>ok\<close>, a decoded payload with \<open>current\<close>
  and a first forecast day, and the objects \<open>forecast.day\<close> and \<open>current.condition\<close> whose
  properties the record reads. No field inside them is tested.\<close>

definition primary_accepted :: "weather_env \<Rightarrow> bool" where
  "primary_accepted env =
     (case weatherApiKey env of
        None \<Rightarrow> False
      | Some key \<Rightarrow>
          key \<noteq> [] \<and>
          (case weatherapi env of
             Rejected e \<Rightarrow> False
           | Response ok status body \<Rightarrow>
               ok \<and>
               (case body of
                  Inl e \<Rightarrow> False
                | Inr None \<Rightarrow> False
                | Inr (Some d) \<Rightarrow>
                    (case (wa_current d, first_element (wa_forecastday d)) of
                       (Some current, Some (Some day)) \<Rightarrow> condition current \<noteq> None
                     | _ \<Rightarrow> False))))"

text \<open>The fallback request. Reading \<open>[0]\<close> of a missing array is a \<open>TypeError\<close>.\<close>

definition secondary_weather ::
  "weather_env \<Rightarrow> jsnum \<Rightarrow> jsnum \<Rightarrow> event list \<times> (js_error + WeatherData)" where
  "secondary_weather env lat lon =
     ([Fetch (OpenMeteo lat lon) TIMEOUT_WEATHER_API],
      (case openmeteo env of
         Rejected e \<Rightarrow> Inl e
       | Response ok status body \<Rightarrow>
           if \<not> ok then Inl (Error (''Weather response not OK: '' @ string_of_nat status))
           else
             (case body of
                Inl e \<Rightarrow> Inl e
              | Inr None \<Rightarrow> Inl (Error ''Invalid weather data structure'')
              | Inr (Some d) \<Rightarrow>
                  (case (om_current d, om_daily d) of
                     (Some current, Some daily) \<Rightarrow>
                       (case temperature_2m_min daily of
                          None \<Rightarrow> Inl PropertyOfUndefined
                        | Some mins \<Rightarrow>
                            (case temperature_2m_max daily of
                               None \<Rightarrow> Inl PropertyOfUndefined
                             | Some maxs \<Rightarrow>
                                 Inr \<lparr>temperature = temperature_2m current,
                                      minTemperature = first_element mins,
                                      maxTemperature = first_element maxs,
                                      humidity = relative_humidity_2m current,
                                      uvIndex = uv_index current,
                                      weatherCode = weather_code current,
                                      rainProbability =
                                        or_default (precipitation_probability current) (Fin 0),
                                      airQuality = Some (Fin 1)\<rparr>))
                   | _ \<Rightarrow> Inl (Error ''Invalid weather data structure'')))))"

record weather_state = hook_state +
  weather :: "WeatherData option"

text \<open>The outer \<open>catch (err)\<close> and \<open>finally\<close> of \<open>fetchWeather\<close>.\<close>

definition weather_failed ::
  "weather_state \<Rightarrow> event list \<Rightarrow> js_error \<Rightarrow> weather_state \<times> event list" where
  "weather_failed st evs err =
     (let errorMessage =
            (if instanceof_Error err then
               (if err_name err = ''AbortError'' then ''Temp. N/A'' @ '': Request timeout''
                else ''Temp. N/A'' @ '': '' @ err_message err)
             else ''Temp. N/A'')
      in (st\<lparr>error := Some errorMessage, loading := False\<rparr>,
          evs @ [Toast (WeatherErrorToast
                   (if instanceof_Error err then err_message err else ''Error desconocido''))]))"

text \<open>\<open>fetchWeather\<close> with the hook's arguments \<open>latitude?: number, longitude?: number\<close>
  (\<open>None\<close> is \<open>undefined\<close>). The first line is \<open>if (!latitude || !longitude) return\<close>.\<close>

definition fetchWeather ::
  "weather_env \<Rightarrow> jsnum option \<Rightarrow> jsnum option \<Rightarrow> weather_state \<Rightarrow> weather_state \<times> event list" where
  "fetchWeather env latitude_arg longitude_arg st0 =
     (if \<not> truthy_opt latitude_arg \<or> \<not> truthy_opt longitude_arg then (st0, [])
      else
        (case (latitude_arg, longitude_arg) of
           (Some lat, Some lon) \<Rightarrow>
             let st = st0\<lparr>loading := True, error := None\<rparr> in
             if invalid_coordinates lat lon
             then weather_failed st [] (Error ''Invalid coordinates'')
             else
               (case primary_weather env lat lon of
                  (evs, Some newWeather) \<Rightarrow>
                    (st\<lparr>weather := Some newWeather, loading := False\<rparr>, evs)
                | (evs, None) \<Rightarrow>
                    (case secondary_weather env lat lon of
                       (evs2, Inl err) \<Rightarrow> weather_failed st (evs @ evs2) err
                     | (evs2, Inr newWeather) \<Rightarrow>
                         (st\<lparr>weather := Some newWeather, loading := False\<rparr>, evs @ evs2)))
         | _ \<Rightarrow> (st0, [])))"

section \<open>The specification's reading of the display name\<close>

text \<open>Deduplication by value that keeps the first occurrence of every value.\<close>

fun dedup_first :: "'a list \<Rightarrow> 'a list" where
  "dedup_first [] = []"
| "dedup_first (x # xs) = x # dedup_first (filter (\<lambda>y. y \<noteq> x) xs)"


text \<open>The street fragment, read from the informative array: the name of the first entry
  that is described as a street.\<close>

fun spec_street :: "informative_entry list \<Rightarrow> string option" where
  "spec_street [] = None"
| "spec_street (entry # rest) =
     (if description entry = ''street'' then name entry else spec_street rest)"

text \<open>The place-name fragments street, locality, city, principalSubdivision, countryName in
  that order, those that are present.\<close>

definition spec_fragments :: "geocode_data \<Rightarrow> string list" where
  "spec_fragments d =
     map the (filter truthy_str
       [spec_street (informative d), locality d, city d, principalSubdivision d,
        countryName d])"

section \<open>The specification's reading of one reverse-geocoding attempt\<close>

text \<open>What one attempt yields before the retry policy looks at it: the display name, or
  the failure (a rejected request, a non-success status, a body that does not decode, a
  payload without a place-name fragment).\<close>

definition geocode_outcome :: "geocode_data option http_result \<Rightarrow> js_error + string" where
  "geocode_outcome r =
     (case r of
        Rejected e \<Rightarrow> Inl e
      | Response ok status body \<Rightarrow>
          if \<not> ok then Inl (Error (''Reverse geocode response not OK: '' @ string_of_nat status))
          else
            (case body of
               Inl e \<Rightarrow> Inl e
             | Inr None \<Rightarrow> Inl (Error ''No location parts found'')
             | Inr (Some d) \<Rightarrow>
                 if spec_fragments d = [] then Inl (Error ''No location parts found'')
                 else Inr (join '', '' (dedup_first (spec_fragments d)))))"

text \<open>A failure that is the timeout aborting the request.\<close>

definition timeout_abort :: "geocode_data option http_result \<Rightarrow> bool" where
  "timeout_abort r = (case geocode_outcome r of Inl e \<Rightarrow> is_AbortError e | Inr n \<Rightarrow> False)"

text \<open>Any other failure.\<close>

definition retryable_failure :: "geocode_data option http_result \<Rightarrow> bool" where
  "retryable_failure r = (case geocode_outcome r of Inl e \<Rightarrow> \<not> is_AbortError e | Inr n \<Rightarrow> False)"

section \<open>The specification's reading of the weather payloads\<close>

text \<open>The primary payload as the specification's table gives it: \<open>current\<close> with
  temperature, humidity, UV index and the condition's code (the air quality is optional),
  and a first forecast day with minimum, maximum and chance of rain.\<close>

definition primary_well_formed :: "weatherapi_payload \<Rightarrow> bool" where
  "primary_well_formed d =
     (case (wa_current d, first_element (wa_forecastday d)) of
        (Some current, Some (Some day)) \<Rightarrow>
          temp_c current \<noteq> None \<and> current_humidity current \<noteq> None \<and>
          uv current \<noteq> None \<and>
          (case condition current of Some (Some code) \<Rightarrow> True | _ \<Rightarrow> False) \<and>
          mintemp_c day \<noteq> None \<and> maxtemp_c day \<noteq> None \<and>
          daily_chance_of_rain day \<noteq> None
      | _ \<Rightarrow> False)"

text \<open>The primary provider yields a well-formed success: a credential is configured, the
  request resolves with an OK status, and the body decodes to a well-formed payload.\<close>

definition primary_well_formed_success :: "weather_env \<Rightarrow> bool" where
  "primary_well_formed_success env =
     (case weatherApiKey env of
        None \<Rightarrow> False
      | Some key \<Rightarrow>
          key \<noteq> [] \<and>
          (case weatherapi env of
             Rejected e \<Rightarrow> False
           | Response ok status body \<Rightarrow>
               ok \<and>
               (case body of
                  Inl e \<Rightarrow> False
                | Inr None \<Rightarrow> False
                | Inr (Some d) \<Rightarrow> primary_well_formed d)))"

text \<open>The secondary payload as the specification's table gives it: \<open>current\<close> with
  temperature, humidity, UV index and weather code (the precipitation probability is
  optional), \<open>daily\<close> with non-empty arrays of maxima and minima.\<close>

definition secondary_well_formed :: "openmeteo_payload \<Rightarrow> bool" where
  "secondary_well_formed p =
     (case (om_current p, om_daily p) of
        (Some current, Some daily) \<Rightarrow>
          temperature_2m current \<noteq> None \<and> relative_humidity_2m current \<noteq> None \<and>
          uv_index current \<noteq> None \<and> weather_code current \<noteq> None \<and>
          (case (temperature_2m_max daily, temperature_2m_min daily) of
             (Some (mx # _), Some (mn # _)) \<Rightarrow> True
           | _ \<Rightarrow> False)
      | _ \<Rightarrow> False)"

text \<open>All eight fields of a record are defined.\<close>

definition fully_populated :: "WeatherData \<Rightarrow> bool" where
  "fully_populated w =
     (temperature w \<noteq> None \<and> minTemperature w \<noteq> None \<and> maxTemperature w \<noteq> None \<and>
      humidity w \<noteq> None \<and> uvIndex w \<noteq> None \<and> weatherCode w \<noteq> None \<and>
      rainProbability w \<noteq> None \<and> airQuality w \<noteq> None)"

section \<open>What the hooks hand to the UI layer\<close>

text \<open>A member of the object a hook returns: a state value, or the function \<open>retry\<close>,
  given by what a call of it does to the hook's state.\<close>

datatype hook_member =
    LocationValue "LocationData option"
  | WeatherValue "WeatherData option"
  | ErrorValue "string option"
  | LoadingValue bool
  | RetryCallback "weather_state \<Rightarrow> weather_state \<times> event list"

text \<open>\<open>return { location, error, loading }\<close>\<close>

definition useAppLocation_returns :: "location_state \<Rightarrow> (string \<times> hook_member) list" where
  "useAppLocation_returns st =
     [(''location'', LocationValue (location st)),
      (''error'', ErrorValue (error st)),
      (''loading'', LoadingValue (loading st))]"

text \<open>\<open>return { weather, error, loading, retry }\<close> with \<open>retry = () => { fetchWeather() }\<close>\<close>

definition useWeather_returns ::
  "weather_env \<Rightarrow> jsnum option \<Rightarrow> jsnum option \<Rightarrow> weather_state \<Rightarrow> (string \<times> hook_member) list" where
  "useWeather_returns env latitude_arg longitude_arg st =
     [(''weather'', WeatherValue (weather st)),
      (''error'', ErrorValue (error st)),
      (''loading'', LoadingValue (loading st)),
      (''retry'', RetryCallback (fetchWeather env latitude_arg longitude_arg))]"

text \<open>The two effects of \<open>useAppLocation\<close>: \<open>getLocation()\<close> when the hook mounts, and, when
  \<open>refreshInterval > 0\<close>, \<open>getLocation(true)\<close> every \<open>refreshInterval * 60 * 1000\<close> ms. Each is
  given with the value of \<open>force\<close> it passes.\<close>

datatype location_trigger = OnMount | OnInterval int

definition useAppLocation_effects :: "int \<Rightarrow> (location_trigger \<times> bool) list" where
  "useAppLocation_effects refreshInterval =
     (OnMount, False) #
     (if refreshInterval > 0 then [(OnInterval (refreshInterval * 60 * 1000), True)] else [])"

fun is_callback :: "hook_member \<Rightarrow> bool" where
  "is_callback (RetryCallback _) = True"
| "is_callback _ = False"

section \<open>Properties of the reverse-geocoding display name\<close>

lemma indexOf_from_bounds:
  "v \<in> set xs \<Longrightarrow> int k \<le> indexOf_from k (xs @ ys) v \<and> indexOf_from k (xs @ ys) v < int (k + length xs)"
proof (induction xs arbitrary: k)
  case Nil
  then show ?case by simp
next
  case (Cons x xs)
  show ?case
  proof (cases "x = v")
    case True
    then show ?thesis by simp
  next
    case False
    with Cons.prems have "v \<in> set xs" by simp
    from Cons.IH [OF this, of "Suc k"] False show ?thesis by simp
  qed
qed

lemma indexOf_from_first:
  "v \<notin> set pre \<Longrightarrow> indexOf_from k (pre @ v # rest) v = int (k + length pre)"
  by (induction pre arbitrary: k) auto

lemma indexOf_here:
  "(indexOf (pre @ v # rest) v = int (length pre)) = (v \<notin> set pre)"
proof (cases "v \<in> set pre")
  case True
  from indexOf_from_bounds [OF True, of 0 "v # rest"] True show ?thesis
    by (simp add: indexOf_def)
next
  case False
  from indexOf_from_first [OF False, of 0 rest] False show ?thesis
    by (simp add: indexOf_def)
qed

lemma filter_from_dedup:
  "filter_from (\<lambda>value index self. P value \<and> indexOf self value = int index) (pre @ vs) (length pre) vs
     = dedup_first (filter (\<lambda>v. P v \<and> v \<notin> set pre) vs)"
proof (induction vs arbitrary: pre)
  case Nil
  show ?case by simp
next
  case (Cons v vs)
  have step: "filter_from (\<lambda>value index self. P value \<and> indexOf self value = int index) (pre @ v # vs) (Suc (length pre)) vs
     = dedup_first (filter (\<lambda>u. P u \<and> u \<notin> set (pre @ [v])) vs)"
    using Cons.IH [of "pre @ [v]"] by simp
  have flt: "\<not> (P v \<and> v \<notin> set pre) \<Longrightarrow>
      filter (\<lambda>u. P u \<and> u \<notin> set (pre @ [v])) vs = filter (\<lambda>u. P u \<and> u \<notin> set pre) vs"
    by (rule filter_cong) auto
  have flt2: "filter (\<lambda>y. y \<noteq> v) (filter (\<lambda>u. P u \<and> u \<notin> set pre) vs)
      = filter (\<lambda>u. P u \<and> u \<notin> set (pre @ [v])) vs"
    by (auto intro: filter_cong)
  show ?case
  proof (cases "P v \<and> v \<notin> set pre")
    case True
    then show ?thesis using step flt2 by (simp add: indexOf_here)
  next
    case False
    then show ?thesis using step flt [OF False] by (auto simp: indexOf_here)
  qed
qed

lemma array_filter_dedup:
  "array_filter (\<lambda>value index self. P value \<and> indexOf self value = int index) xs
     = dedup_first (filter P xs)"
  using filter_from_dedup [of P "[]" xs] by (simp add: array_filter_def)

lemma dedup_first_map:
  "inj_on f (set xs) \<Longrightarrow> map f (dedup_first xs) = dedup_first (map f xs)"
proof (induction xs rule: dedup_first.induct)
  case 1
  show ?case by simp
next
  case (2 x xs)
  have inj: "inj_on f (set (filter (\<lambda>y. y \<noteq> x) xs))"
    using "2.prems" by (auto simp: inj_on_def)
  have "filter (\<lambda>y. y \<noteq> f x) (map f xs) = map f (filter (\<lambda>y. y \<noteq> x) xs)"
    using "2.prems" by (induction xs) (auto simp: inj_on_def)
  then show ?case using "2.IH" [OF inj] by simp
qed

lemma filter_keep_truthy:
  "filter truthy_str (map keep_truthy xs) = filter truthy_str xs"
  by (induction xs) (auto simp: keep_truthy_def)

lemma truthy_str_Some: "truthy_str v \<Longrightarrow> \<exists>s. v = Some s \<and> s \<noteq> []"
  by (cases v) auto

lemma inj_the_truthy: "inj_on the (set (filter truthy_str xs))"
  by (rule inj_onI) (auto dest!: truthy_str_Some)

lemma find_street:
  "(case find (\<lambda>i. description i = ''street'') entries of
      None \<Rightarrow> None
    | Some i \<Rightarrow> name i) = spec_street entries"
  by (induction entries) simp_all

lemma street_of_spec: "street_of d = spec_street (informative d)"
  by (simp only: street_of_def find_street)

lemma finalParts_spec: "finalParts d = dedup_first (spec_fragments d)"
proof -
  let ?raw = "[spec_street (informative d), locality d, city d, principalSubdivision d,
               countryName d]"
  have pa: "parts_array d = map keep_truthy ?raw"
    by (simp add: parts_array_def street_of_spec)
  have inj: "inj_on the (set (filter truthy_str ?raw))"
    by (rule inj_the_truthy)
  have "finalParts d = map the (dedup_first (filter truthy_str (parts_array d)))"
    by (simp only: finalParts_def array_filter_dedup)
  also have "\<dots> = map the (dedup_first (filter truthy_str ?raw))"
    by (simp only: pa filter_keep_truthy)
  also have "\<dots> = dedup_first (map the (filter truthy_str ?raw))"
    by (rule dedup_first_map [OF inj])
  finally show ?thesis by (simp only: spec_fragments_def)
qed



lemma dedup_first_Nil: "(dedup_first xs = []) = (xs = [])"
  by (cases xs) auto

lemma on_catch_not_Return [simp]: "on_catch m attempt e \<noteq> Return n"
  by (simp add: on_catch_def)



section \<open>Properties of the reverse-geocoding retry loop\<close>

lemma is_AbortError_Error [simp]: "\<not> is_AbortError (Error m)"
  by (simp add: is_AbortError_def Error_def)

lemma geocode_attempt_outcome:
  "geocode_attempt net attempt =
     (case geocode_outcome (net attempt) of
        Inr n \<Rightarrow> Return n
      | Inl e \<Rightarrow>
          if attempt = MAX_RETRIES then Throw e
          else if is_AbortError e then Throw (Error ''Reverse geocoding request timeout'')
          else Continue)"
proof (cases "net attempt")
  case (Rejected e)
  then show ?thesis by (simp add: geocode_attempt_def geocode_outcome_def on_catch_def)
next
  case (Response ok status body)
  show ?thesis
  proof (cases body)
    case (Inl e)
    with Response show ?thesis
      by (simp add: geocode_attempt_def geocode_outcome_def on_catch_def)
  next
    case (Inr payload)
    show ?thesis
    proof (cases payload)
      case None
      with Response Inr show ?thesis
        by (simp add: geocode_attempt_def geocode_outcome_def on_catch_def)
    next
      case (Some d)
      with Response Inr show ?thesis
        by (simp add: geocode_attempt_def geocode_outcome_def on_catch_def
            finalParts_spec dedup_first_Nil)
    qed
  qed
qed

lemma loop_retry:
  "attempt < MAX_RETRIES \<Longrightarrow> retryable_failure (net attempt) \<Longrightarrow>
   fetchLocationName_loop net lat lon attempt =
     (Fetch (ReverseGeocode lat lon) TIMEOUT_REVERSE_GEOCODE # Sleep (DELAY * attempt) #
        fst (fetchLocationName_loop net lat lon (Suc attempt)),
      snd (fetchLocationName_loop net lat lon (Suc attempt)))"
  by (subst fetchLocationName_loop.simps)
     (auto simp: geocode_attempt_outcome retryable_failure_def split: sum.splits prod.splits)

lemma loop_timeout:
  "attempt < MAX_RETRIES \<Longrightarrow> timeout_abort (net attempt) \<Longrightarrow>
   fetchLocationName_loop net lat lon attempt =
     ([Fetch (ReverseGeocode lat lon) TIMEOUT_REVERSE_GEOCODE],
      Inl (Error ''Reverse geocoding request timeout''))"
  by (subst fetchLocationName_loop.simps)
     (auto simp: geocode_attempt_outcome timeout_abort_def split: sum.splits)

lemma loop_success:
  "attempt \<le> MAX_RETRIES \<Longrightarrow> geocode_outcome (net attempt) = Inr n \<Longrightarrow>
   fetchLocationName_loop net lat lon attempt =
     ([Fetch (ReverseGeocode lat lon) TIMEOUT_REVERSE_GEOCODE], Inr n)"
  by (subst fetchLocationName_loop.simps) (simp add: geocode_attempt_outcome)

lemma loop_last:
  "fetchLocationName_loop net lat lon MAX_RETRIES =
     ([Fetch (ReverseGeocode lat lon) TIMEOUT_REVERSE_GEOCODE], geocode_outcome (net MAX_RETRIES))"
  by (subst fetchLocationName_loop.simps)
     (simp add: geocode_attempt_outcome split: sum.splits)


lemma getLocation_resolved:
  assumes "force \<or> cache_lookup env storage = Inr None"
    and "resolve_location env = (evs, Inr l)"
  shows "getLocation env force (st, storage) =
           ((st\<lparr>error := None, loading := False, location := Some l\<rparr>,
             storage(cacheKey \<mapsto> JSON_stringify env \<lparr>timestamp = now_at_store env, data = l\<rparr>)),
            evs)"
  using assms by (auto simp: getLocation_def)

lemma getLocation_unresolved:
  assumes "force \<or> cache_lookup env storage = Inr None"
    and "resolve_location env = (evs, Inl err)"
  shows "getLocation env force (st, storage) =
           location_failed (st\<lparr>loading := True, error := None\<rparr>) storage evs err"
  using assms by (auto simp: getLocation_def)

lemma precise_location_named:
  assumes "geolocation env = GeoPosition lat lon" and "\<not> invalid_coordinates lat lon"
    and "fetchLocationName (reverse_geocode_api env) lat lon = (evs, Inr n)"
  shows "precise_location env =
           (GetCurrentPosition # evs @ [Track ''locationGeolocationSuccess''],
            Inr \<lparr>latitude = lat, longitude = lon, displayName = n\<rparr>)"
  using assms by (simp add: precise_location_def)

lemma resolve_location_precise:
  "precise_location env = (evs, Inr l) \<Longrightarrow> resolve_location env = (evs, Inr l)"
  by (simp add: resolve_location_def)

text \<open>
  C2 (as amended). With valid coordinates, a failed attempt before the last that is not a
  timeout abort (a non-success status, a transport failure, a body that does not decode, a
  payload without fragments) is followed by a wait of \<open>attempt * 1000\<close> ms and the next
  attempt, three attempts at most, and the outcome of the third attempt is the outcome of
  the resolution, its failure included. A timeout abort on attempt 1 or 2 is not retried:
  the resolution fails at once with "Reverse geocoding request timeout". Failures of the
  first kind on attempts 1 and 2 followed by a success on attempt 3 make \<open>getLocation\<close>
  (forced, or without a fresh cache entry) end with the location set, no error and no
  toast.
\<close>

theorem reverse_geocode_retry:
  assumes valid: "\<not> invalid_coordinates lat lon"
  shows
    "(retryable_failure (net 1) \<and> retryable_failure (net 2) \<longrightarrow>
        fetchLocationName net lat lon =
          ([Fetch (ReverseGeocode lat lon) 8000, Sleep 1000,
            Fetch (ReverseGeocode lat lon) 8000, Sleep 2000,
            Fetch (ReverseGeocode lat lon) 8000],
           geocode_outcome (net 3))) \<and>
     (retryable_failure (net 1) \<and> geocode_outcome (net 2) = Inr n \<longrightarrow>
        fetchLocationName net lat lon =
          ([Fetch (ReverseGeocode lat lon) 8000, Sleep 1000,
            Fetch (ReverseGeocode lat lon) 8000], Inr n)) \<and>
     (geocode_outcome (net 1) = Inr n \<longrightarrow>
        fetchLocationName net lat lon = ([Fetch (ReverseGeocode lat lon) 8000], Inr n)) \<and>
     (timeout_abort (net 1) \<longrightarrow>
        fetchLocationName net lat lon =
          ([Fetch (ReverseGeocode lat lon) 8000],
           Inl (Error ''Reverse geocoding request timeout''))) \<and>
     (retryable_failure (net 1) \<and> timeout_abort (net 2) \<longrightarrow>
        fetchLocationName net lat lon =
          ([Fetch (ReverseGeocode lat lon) 8000, Sleep 1000,
            Fetch (ReverseGeocode lat lon) 8000],
           Inl (Error ''Reverse geocoding request timeout''))) \<and>
     ((force \<or> cache_lookup env storage = Inr None) \<and>
      geolocation env = GeoPosition lat lon \<and> reverse_geocode_api env = net \<and>
      retryable_failure (net 1) \<and> retryable_failure (net 2) \<and>
      geocode_outcome (net 3) = Inr n \<longrightarrow>
        getLocation env force (st, storage) =
          ((st\<lparr>error := None, loading := False,
               location := Some \<lparr>latitude = lat, longitude = lon, displayName = n\<rparr>\<rparr>,
            storage(cacheKey \<mapsto> JSON_stringify env
              \<lparr>timestamp = now_at_store env,
               data = \<lparr>latitude = lat, longitude = lon, displayName = n\<rparr>\<rparr>)),
           [GetCurrentPosition,
            Fetch (ReverseGeocode lat lon) 8000, Sleep 1000,
            Fetch (ReverseGeocode lat lon) 8000, Sleep 2000,
            Fetch (ReverseGeocode lat lon) 8000,
            Track ''locationGeolocationSuccess'']))"
proof -
  have one: "(1::nat) < MAX_RETRIES" and two: "(2::nat) < MAX_RETRIES"
    and three: "MAX_RETRIES = 3"
    by (simp_all add: MAX_RETRIES_def)
  have start: "fetchLocationName net lat lon = fetchLocationName_loop net lat lon 1"
    using valid by (simp add: fetchLocationName_def)
  have last: "fetchLocationName_loop net lat lon 3 =
      ([Fetch (ReverseGeocode lat lon) 8000], geocode_outcome (net 3))"
    using loop_last [of net lat lon] by (simp add: three TIMEOUT_REVERSE_GEOCODE_def)
  have c1: "fetchLocationName net lat lon =
          ([Fetch (ReverseGeocode lat lon) 8000, Sleep 1000,
            Fetch (ReverseGeocode lat lon) 8000, Sleep 2000,
            Fetch (ReverseGeocode lat lon) 8000],
           geocode_outcome (net 3))"
    if "retryable_failure (net 1)" "retryable_failure (net 2)"
    using loop_retry [of 1 net lat lon] one that loop_retry [of 2 net lat lon] two last
    by (simp add: start numeral_2_eq_2 numeral_3_eq_3 TIMEOUT_REVERSE_GEOCODE_def DELAY_def)
  have c2: "fetchLocationName net lat lon =
          ([Fetch (ReverseGeocode lat lon) 8000, Sleep 1000,
            Fetch (ReverseGeocode lat lon) 8000], Inr n)"
    if "retryable_failure (net 1)" "geocode_outcome (net 2) = Inr n"
    using loop_retry [of 1 net lat lon] one that loop_success [of 2 net n lat lon]
    by (simp add: start numeral_2_eq_2 numeral_3_eq_3 three TIMEOUT_REVERSE_GEOCODE_def DELAY_def)
  have c3: "fetchLocationName net lat lon = ([Fetch (ReverseGeocode lat lon) 8000], Inr n)"
    if "geocode_outcome (net 1) = Inr n"
    using loop_success [of 1 net n lat lon] that
    by (simp add: start three TIMEOUT_REVERSE_GEOCODE_def)
  have c4: "fetchLocationName net lat lon =
          ([Fetch (ReverseGeocode lat lon) 8000],
           Inl (Error ''Reverse geocoding request timeout''))"
    if "timeout_abort (net 1)"
    using loop_timeout [of 1 net lat lon] one that
    by (simp add: start TIMEOUT_REVERSE_GEOCODE_def)
  have c5: "fetchLocationName net lat lon =
          ([Fetch (ReverseGeocode lat lon) 8000, Sleep 1000,
            Fetch (ReverseGeocode lat lon) 8000],
           Inl (Error ''Reverse geocoding request timeout''))"
    if "retryable_failure (net 1)" "timeout_abort (net 2)"
    using loop_retry [of 1 net lat lon] one that loop_timeout [of 2 net lat lon] two
    by (simp add: start numeral_2_eq_2 numeral_3_eq_3 TIMEOUT_REVERSE_GEOCODE_def DELAY_def)
  have c6: "getLocation env force (st, storage) =
          ((st\<lparr>error := None, loading := False,
               location := Some \<lparr>latitude = lat, longitude = lon, displayName = n\<rparr>\<rparr>,
            storage(cacheKey \<mapsto> JSON_stringify env
              \<lparr>timestamp = now_at_store env,
               data = \<lparr>latitude = lat, longitude = lon, displayName = n\<rparr>\<rparr>)),
           [GetCurrentPosition,
            Fetch (ReverseGeocode lat lon) 8000, Sleep 1000,
            Fetch (ReverseGeocode lat lon) 8000, Sleep 2000,
            Fetch (ReverseGeocode lat lon) 8000,
            Track ''locationGeolocationSuccess''])"
    if m: "force \<or> cache_lookup env storage = Inr None"
      and g: "geolocation env = GeoPosition lat lon" and e: "reverse_geocode_api env = net"
      and r1: "retryable_failure (net 1)" and r2: "retryable_failure (net 2)"
      and ok: "geocode_outcome (net 3) = Inr n"
  proof -
    have "fetchLocationName (reverse_geocode_api env) lat lon =
        ([Fetch (ReverseGeocode lat lon) 8000, Sleep 1000,
          Fetch (ReverseGeocode lat lon) 8000, Sleep 2000,
          Fetch (ReverseGeocode lat lon) 8000], Inr n)"
      using c1 [OF r1 r2] ok e by simp
    from precise_location_named [OF g valid this]
    have "resolve_location env =
        ([GetCurrentPosition,
          Fetch (ReverseGeocode lat lon) 8000, Sleep 1000,
          Fetch (ReverseGeocode lat lon) 8000, Sleep 2000,
          Fetch (ReverseGeocode lat lon) 8000,
          Track ''locationGeolocationSuccess''],
         Inr \<lparr>latitude = lat, longitude = lon, displayName = n\<rparr>)"
      by (simp add: resolve_location_precise)
    then show ?thesis
      by (rule getLocation_resolved [OF m])
  qed
  from c1 c2 c3 c4 c5 c6 show ?thesis by blast
qed

text \<open>A non-success status, then a transport failure, then a success; the same with a
  timeout in place of the transport failure; and the first scenario through \<open>getLocation\<close>.\<close>

theorem reverse_geocode_retry_witness:
  "(let madrid = Response True 200 (Inr (Some
          \<lparr>informative = [], locality = Some ''Centro'', city = Some ''Madrid'',
           principalSubdivision = None, countryName = Some ''Spain''\<rparr>));
        lat = Fin 40.4168; lon = Fin (- 3.7038);
        request = Fetch (ReverseGeocode lat lon) 8000;
        failing = (\<lambda>attempt. if attempt = 1 then Response False 503 (Inl NonError)
                     else if attempt = 2 then Rejected NetworkError else madrid);
        slow = (\<lambda>attempt. if attempt = 1 then Response False 503 (Inl NonError)
                     else if attempt = 2 then Rejected AbortError else madrid);
        env = \<lparr>JSON_parse = (\<lambda>s. Inl (JsError ''SyntaxError'' ''Unexpected token'')),
               JSON_stringify = (\<lambda>c. ''entry''),
               now_at_check = 1700000000000, now_at_store = 1700000004000,
               geolocation = GeoPosition lat lon,
               reverse_geocode_api = failing,
               ip_api = (\<lambda>attempt. Rejected NetworkError)\<rparr>
    in fetchLocationName failing lat lon =
         ([request, Sleep 1000, request, Sleep 2000, request], Inr ''Centro, Madrid, Spain'') \<and>
       fetchLocationName slow lat lon =
         ([request, Sleep 1000, request], Inl (Error ''Reverse geocoding request timeout'')) \<and>
       getLocation env False (\<lparr>error = None, loading = True, location = None\<rparr>, Map.empty) =
         ((\<lparr>error = None, loading = False,
            location = Some \<lparr>latitude = lat, longitude = lon,
                              displayName = ''Centro, Madrid, Spain''\<rparr>\<rparr>,
           [cacheKey \<mapsto> ''entry'']),
          [GetCurrentPosition, request, Sleep 1000, request, Sleep 2000, request,
           Track ''locationGeolocationSuccess'']))"
proof -
  let ?madrid = "Response True 200 (Inr (Some
          \<lparr>informative = [], locality = Some ''Centro'', city = Some ''Madrid'',
           principalSubdivision = None, countryName = Some ''Spain''\<rparr>))
        :: geocode_data option http_result"
  let ?lat = "Fin 40.4168" and ?lon = "Fin (- 3.7038)"
  let ?failing = "\<lambda>attempt::nat. if attempt = 1 then Response False 503 (Inl NonError)
                     else if attempt = 2 then Rejected NetworkError else ?madrid"
  let ?slow = "\<lambda>attempt::nat. if attempt = 1 then Response False 503 (Inl NonError)
                     else if attempt = 2 then Rejected AbortError else ?madrid"
  let ?env = "\<lparr>JSON_parse = (\<lambda>s. Inl (JsError ''SyntaxError'' ''Unexpected token'')),
               JSON_stringify = (\<lambda>c. ''entry''),
               now_at_check = 1700000000000, now_at_store = 1700000004000,
               geolocation = GeoPosition ?lat ?lon,
               reverse_geocode_api = ?failing,
               ip_api = (\<lambda>attempt. Rejected NetworkError)\<rparr>"
  have valid: "\<not> invalid_coordinates ?lat ?lon"
    by (simp add: invalid_coordinates_def)
  have f1: "retryable_failure (?failing 1)" and f2: "retryable_failure (?failing 2)"
    and f3: "geocode_outcome (?failing 3) = Inr ''Centro, Madrid, Spain''"
    and s1: "retryable_failure (?slow 1)" and s2: "timeout_abort (?slow 2)"
    by (simp_all add: retryable_failure_def timeout_abort_def geocode_outcome_def
        NetworkError_def AbortError_def is_AbortError_def Error_def
        spec_fragments_def street_of_def)
  have miss: "cache_lookup ?env Map.empty = Inr None"
    by (simp add: cache_lookup_def)
  note inst = reverse_geocode_retry [OF valid]
  have a: "fetchLocationName ?failing ?lat ?lon =
      ([Fetch (ReverseGeocode ?lat ?lon) 8000, Sleep 1000,
        Fetch (ReverseGeocode ?lat ?lon) 8000, Sleep 2000,
        Fetch (ReverseGeocode ?lat ?lon) 8000], Inr ''Centro, Madrid, Spain'')"
    using inst [where net = ?failing, THEN conjunct1] f1 f2 f3 by simp
  have b: "fetchLocationName ?slow ?lat ?lon =
      ([Fetch (ReverseGeocode ?lat ?lon) 8000, Sleep 1000,
        Fetch (ReverseGeocode ?lat ?lon) 8000],
       Inl (Error ''Reverse geocoding request timeout''))"
    using inst [where net = ?slow, THEN conjunct2, THEN conjunct2, THEN conjunct2,
                THEN conjunct2, THEN conjunct1] s1 s2 by simp
  have c: "getLocation ?env False (\<lparr>error = None, loading = True, location = None\<rparr>, Map.empty) =
         ((\<lparr>error = None, loading = False,
            location = Some \<lparr>latitude = ?lat, longitude = ?lon,
                              displayName = ''Centro, Madrid, Spain''\<rparr>\<rparr>,
           [cacheKey \<mapsto> ''entry'']),
          [GetCurrentPosition, Fetch (ReverseGeocode ?lat ?lon) 8000, Sleep 1000,
           Fetch (ReverseGeocode ?lat ?lon) 8000, Sleep 2000,
           Fetch (ReverseGeocode ?lat ?lon) 8000,
           Track ''locationGeolocationSuccess''])"
    using inst [where net = ?failing and env = ?env and force = False
                 and storage = Map.empty and n = "''Centro, Madrid, Spain''"
                 and st = "\<lparr>error = None, loading = True, location = None\<rparr>",
               THEN conjunct2, THEN conjunct2, THEN conjunct2,
               THEN conjunct2, THEN conjunct2] f1 f2 f3 miss
    by simp
  from a b c show ?thesis by (simp add: Let_def)
qed

text \<open>
  The claim as stated fails: when the timeout aborts attempt 1 the loop makes no second
  request, although attempt 3 would have succeeded.
\<close>

theorem reverse_geocode_timeout_counterexample:
  "fetchLocationName
     (\<lambda>attempt. if attempt < 3 then Rejected AbortError
        else Response True 200 (Inr (Some
          \<lparr>informative = [], locality = Some ''Centro'', city = Some ''Madrid'',
           principalSubdivision = None, countryName = Some ''Spain''\<rparr>)))
     (Fin 40.4168) (Fin (- 3.7038))
   = ([Fetch (ReverseGeocode (Fin 40.4168) (Fin (- 3.7038))) 8000],
      Inl (Error ''Reverse geocoding request timeout''))"
  by (simp add: fetchLocationName_def invalid_coordinates_def fetchLocationName_loop.simps
      geocode_attempt_def on_catch_def MAX_RETRIES_def is_AbortError_def AbortError_def
      TIMEOUT_REVERSE_GEOCODE_def)


section \<open>The display name of a resolved location\<close>

lemma join_nonempty:
  "xs \<noteq> [] \<Longrightarrow> \<forall>x\<in>set xs. x \<noteq> [] \<Longrightarrow> join sep xs \<noteq> []"
proof (cases xs)
  case Nil
  assume "xs \<noteq> []"
  with Nil show ?thesis by simp
next
  case (Cons x rest)
  assume "\<forall>x\<in>set xs. x \<noteq> []"
  with Cons have "x \<noteq> []" by simp
  with Cons show ?thesis by (cases rest) simp_all
qed

lemma set_dedup_first: "set (dedup_first xs) = set xs"
  by (induction xs rule: dedup_first.induct) auto

lemma truthy_parts_nonempty:
  "x \<in> set (map the (filter truthy_str vs)) \<Longrightarrow> x \<noteq> []"
  by (auto dest!: truthy_str_Some)

lemma geocode_outcome_nonempty:
  assumes "geocode_outcome r = Inr n"
  shows "n \<noteq> []"
proof -
  from assms obtain d where frag: "spec_fragments d \<noteq> []"
    and n: "n = join '', '' (dedup_first (spec_fragments d))"
    by (auto simp: geocode_outcome_def split: http_result.splits if_splits sum.splits option.splits)
  have "\<forall>x\<in>set (dedup_first (spec_fragments d)). x \<noteq> []"
    unfolding set_dedup_first spec_fragments_def using truthy_parts_nonempty by blast
  moreover have "dedup_first (spec_fragments d) \<noteq> []"
    using frag by (simp add: dedup_first_Nil)
  ultimately show ?thesis
    unfolding n by (rule join_nonempty [rotated])
qed

lemma fetchLocationName_loop_nonempty:
  "fetchLocationName_loop net lat lon attempt = (evs, Inr n) \<Longrightarrow> n \<noteq> []"
proof (induction net lat lon attempt arbitrary: evs rule: fetchLocationName_loop.induct)
  case (1 net lat lon attempt)
  show ?case
  proof (cases "geocode_attempt net attempt")
    case (Return m)
    with "1.prems" have "n = m"
      by (subst (asm) fetchLocationName_loop.simps) (simp split: if_splits)
    moreover from Return have "geocode_outcome (net attempt) = Inr m"
      by (simp add: geocode_attempt_outcome split: sum.splits if_splits)
    ultimately show ?thesis using geocode_outcome_nonempty by blast
  next
    case (Throw e)
    with "1.prems" show ?thesis
      by (subst (asm) fetchLocationName_loop.simps) (simp split: if_splits)
  next
    case Continue
    with "1.prems" obtain evs' where le: "attempt \<le> MAX_RETRIES"
      and "fetchLocationName_loop net lat lon (Suc attempt) = (evs', Inr n)"
      by (subst (asm) fetchLocationName_loop.simps) (auto split: if_splits prod.splits)
    with "1.IH" [OF le Continue] show ?thesis by blast
  qed
qed

lemma unknown_location_nonempty: "unknown_location \<noteq> []"
  by (simp add: unknown_location_def)

lemma ip_displayName_nonempty: "ip_displayName d \<noteq> []"
  by (simp add: ip_displayName_def Let_def unknown_location_nonempty)

lemma ip_attempt_nonempty: "ip_attempt net attempt = Return l \<Longrightarrow> displayName l \<noteq> []"
  by (auto simp: ip_attempt_def ip_displayName_nonempty
      split: http_result.splits if_splits sum.splits option.splits)

lemma ip_loop_nonempty:
  "ip_loop net attempt = (evs, Inr l) \<Longrightarrow> displayName l \<noteq> []"
proof (induction net attempt arbitrary: evs rule: ip_loop.induct)
  case (1 net attempt)
  show ?case
  proof (cases "ip_attempt net attempt")
    case (Return m)
    with "1.prems" have "l = m"
      by (subst (asm) ip_loop.simps) (simp split: if_splits)
    with Return show ?thesis using ip_attempt_nonempty by blast
  next
    case (Throw e)
    with "1.prems" show ?thesis
      by (subst (asm) ip_loop.simps) (simp split: if_splits)
  next
    case Continue
    with "1.prems" obtain evs' where le: "attempt \<le> MAX_RETRIES"
      and "ip_loop net (Suc attempt) = (evs', Inr l)"
      by (subst (asm) ip_loop.simps) (auto split: if_splits prod.splits)
    with "1.IH" [OF le Continue] show ?thesis by blast
  qed
qed

lemma precise_location_nonempty:
  "precise_location env = (evs, Inr l) \<Longrightarrow> displayName l \<noteq> []"
  by (auto simp: precise_location_def fetchLocationName_def
      split: geo_result.splits if_splits prod.splits sum.splits
      dest: fetchLocationName_loop_nonempty)

lemma resolve_location_nonempty:
  "resolve_location env = (evs, Inr l) \<Longrightarrow> displayName l \<noteq> []"
  by (auto simp: resolve_location_def split: prod.splits sum.splits
      dest: precise_location_nonempty ip_loop_nonempty)


lemma location_failed_error:
  "error (fst (fst (location_failed st storage evs err))) \<noteq> None"
  by (simp add: location_failed_def Let_def)

lemma getLocation_success_nonempty:
  assumes ok: "error (fst (fst (getLocation env force (st, storage)))) = None"
    and cache: "\<forall>d. cache_lookup env storage = Inr (Some d) \<longrightarrow> displayName d \<noteq> []"
  shows "\<exists>l. location (fst (fst (getLocation env force (st, storage)))) = Some l \<and>
              displayName l \<noteq> []"
proof (cases "if force then Inr None else cache_lookup env storage")
  case (Inl err)
  with ok location_failed_error show ?thesis
    by (simp add: getLocation_def)
next
  case (Inr hit)
  show ?thesis
  proof (cases hit)
    case (Some d)
    with Inr have "cache_lookup env storage = Inr (Some d)"
      by (simp split: if_splits)
    with cache have "displayName d \<noteq> []" by blast
    with Inr Some show ?thesis by (simp add: getLocation_def)
  next
    case None
    obtain evs r where res: "resolve_location env = (evs, r)"
      by (cases "resolve_location env")
    show ?thesis
    proof (cases r)
      case (Inl err)
      with ok Inr None res location_failed_error show ?thesis
        by (simp add: getLocation_def)
    next
      case r: (Inr l)
      with res have "displayName l \<noteq> []"
        using resolve_location_nonempty by blast
      with Inr None res r show ?thesis by (simp add: getLocation_def)
    qed
  qed
qed

lemma ip_sentinel:
  assumes "net attempt = Response True status (Inr (Some d))"
    and "ip_latitude d = Some la" and "ip_longitude d = Some lo"
    and "truthy_num la" and "truthy_num lo" and "\<not> invalid_coordinates la lo"
    and "\<not> truthy_str (ip_city d)" and "\<not> truthy_str (ip_region d)"
    and "\<not> truthy_str (ip_country_name d)"
  shows "ip_attempt net attempt =
           Return \<lparr>latitude = la, longitude = lo, displayName = unknown_location\<rparr>"
  using assms by (simp add: ip_attempt_def ip_displayName_def)

lemma getLocation_ip_sentinel:
  assumes miss: "force \<or> cache_lookup env storage = Inr None"
    and geo: "snd (precise_location env) = Inl geoError"
    and ip: "ip_attempt (ip_api env) 1 =
               Return \<lparr>latitude = la, longitude = lo, displayName = unknown_location\<rparr>"
  shows "error (fst (fst (getLocation env force (st, storage)))) = None \<and>
         location (fst (fst (getLocation env force (st, storage)))) =
           Some \<lparr>latitude = la, longitude = lo, displayName = unknown_location\<rparr>"
proof -
  have "ip_loop (ip_api env) 1 =
      ([Fetch IpApi TIMEOUT_IP_API, Track ''locationIPFallback''],
       Inr \<lparr>latitude = la, longitude = lo, displayName = unknown_location\<rparr>)"
    using ip by (subst ip_loop.simps) (simp add: MAX_RETRIES_def)
  with geo have "resolve_location env =
      (fst (precise_location env) @ [Toast GeolocationFallbackToast] @
         [Fetch IpApi TIMEOUT_IP_API, Track ''locationIPFallback''],
       Inr \<lparr>latitude = la, longitude = lo, displayName = unknown_location\<rparr>)"
    by (cases "precise_location env") (simp add: resolve_location_def)
  from getLocation_resolved [OF miss this] show ?thesis by simp
qed

lemma ip_loop_reaches:
  "start \<le> k \<Longrightarrow> k \<le> MAX_RETRIES \<Longrightarrow>
   (\<forall>j. start \<le> j \<and> j < k \<longrightarrow> ip_attempt net j = Continue) \<Longrightarrow>
   ip_attempt net k = Return l \<Longrightarrow>
   snd (ip_loop net start) = Inr l"
proof (induction "k - start" arbitrary: start)
  case 0
  then have "start = k" by simp
  with "0.prems" show ?case
    by (subst ip_loop.simps) simp
next
  case (Suc m)
  then have lt: "start < k" by simp
  with Suc.prems have cont: "ip_attempt net start = Continue" by simp
  have "snd (ip_loop net (Suc start)) = Inr l"
  proof (rule Suc.hyps(1))
    show "m = k - Suc start" using Suc.hyps(2) by simp
    show "Suc start \<le> k" using lt by simp
    show "k \<le> MAX_RETRIES" by (rule Suc.prems(2))
    show "\<forall>j. Suc start \<le> j \<and> j < k \<longrightarrow> ip_attempt net j = Continue"
      using Suc.prems(3) by simp
    show "ip_attempt net k = Return l" by (rule Suc.prems(4))
  qed
  moreover have "start \<le> MAX_RETRIES" using lt Suc.prems(2) by simp
  ultimately show ?case using cont
    by (subst ip_loop.simps) (auto split: prod.splits)
qed

lemma resolve_location_fallback:
  "snd (precise_location env) = Inl e \<Longrightarrow>
   snd (resolve_location env) = snd (ip_loop (ip_api env) 1)"
  by (cases "precise_location env") (simp add: resolve_location_def split: prod.splits)

lemma getLocation_outcome:
  assumes miss: "force \<or> cache_lookup env storage = Inr None"
  shows "(snd (resolve_location env) = Inr l \<longrightarrow>
            error (fst (fst (getLocation env force (st, storage)))) = None \<and>
            location (fst (fst (getLocation env force (st, storage)))) = Some l) \<and>
         (snd (resolve_location env) = Inl e \<longrightarrow>
            error (fst (fst (getLocation env force (st, storage)))) =
              Some (if instanceof_Error e then err_message e else ''Location N/A'') \<and>
            location (fst (fst (getLocation env force (st, storage)))) = location st)"
proof (cases "resolve_location env")
  case (Pair evs r)
  show ?thesis
  proof (cases r)
    case (Inl err)
    with Pair getLocation_unresolved [OF miss, of evs err st] show ?thesis
      by (simp add: location_failed_def Let_def)
  next
    case (Inr loc)
    with Pair getLocation_resolved [OF miss, of evs loc st] show ?thesis
      by simp
  qed
qed

lemma nameless_retryable:
  assumes "net k = Response True status (Inr (Some g))" and "spec_fragments g = []"
  shows "geocode_outcome (net k) = Inl (Error ''No location parts found'')"
    and "retryable_failure (net k)"
  using assms by (simp_all add: geocode_outcome_def retryable_failure_def)

lemma fetchLocationName_three:
  assumes valid: "\<not> invalid_coordinates lat lon"
    and a: "retryable_failure (net 1)" and b: "retryable_failure (net 2)"
  shows "fetchLocationName net lat lon =
          ([Fetch (ReverseGeocode lat lon) 8000, Sleep 1000,
            Fetch (ReverseGeocode lat lon) 8000, Sleep 2000,
            Fetch (ReverseGeocode lat lon) 8000],
           geocode_outcome (net 3))"
proof -
  have one: "(1::nat) < MAX_RETRIES" and two: "(2::nat) < MAX_RETRIES"
    and three: "MAX_RETRIES = 3"
    by (simp_all add: MAX_RETRIES_def)
  have start: "fetchLocationName net lat lon = fetchLocationName_loop net lat lon 1"
    using valid by (simp add: fetchLocationName_def)
  have last: "fetchLocationName_loop net lat lon 3 =
      ([Fetch (ReverseGeocode lat lon) 8000], geocode_outcome (net 3))"
    using loop_last [of net lat lon] by (simp add: three TIMEOUT_REVERSE_GEOCODE_def)
  show ?thesis
    using loop_retry [of 1 net lat lon] one a loop_retry [of 2 net lat lon] two b last
    by (simp add: start numeral_2_eq_2 numeral_3_eq_3 TIMEOUT_REVERSE_GEOCODE_def DELAY_def)
qed

lemma precise_location_failed:
  assumes "geolocation env = GeoPosition lat lon" and "\<not> invalid_coordinates lat lon"
    and "fetchLocationName (reverse_geocode_api env) lat lon = (evs, Inl e)"
  shows "precise_location env = (GetCurrentPosition # evs, Inl e)"
  using assms by (simp add: precise_location_def)

text \<open>
  C7 (as amended). Whenever \<open>getLocation\<close> ends without an error, the location it has set
  has a non-empty display name, provided a fresh cache entry, if there is one, has a
  non-empty display name (the resolver stores only names it has resolved). When the
  precise path has failed and an IP lookup, on the first attempt or on a later one
  reached by the retries, returns in-range coordinates with nonzero latitude and longitude but no
  place-name fragment, the resolution succeeds with the sentinel text of the source as
  display name. A reverse-geocoding response without fragments does not produce the
  sentinel: that attempt fails with "No location parts found", retried like any failure
  and rethrown on the last attempt. When all three attempts answer without fragments,
  the precise path ends with that error after the three requests and the two waits, and
  the resolution is what the IP lookup makes of it: its location without an error, or
  its error with the location left as it was.
\<close>

theorem resolved_displayName:
  "(error (fst (fst (getLocation env force (st, storage)))) = None \<and>
      (\<forall>c. cache_lookup env storage = Inr (Some c) \<longrightarrow> displayName c \<noteq> []) \<longrightarrow>
        (\<exists>l. location (fst (fst (getLocation env force (st, storage)))) = Some l \<and>
              displayName l \<noteq> [])) \<and>
   ((force \<or> cache_lookup env storage = Inr None) \<and>
    snd (precise_location env) = Inl geoError \<and>
    1 \<le> k \<and> k \<le> 3 \<and>
    (\<forall>j. 1 \<le> j \<and> j < k \<longrightarrow> ip_attempt (ip_api env) j = Continue) \<and>
    ip_api env k = Response True status (Inr (Some d)) \<and>
    ip_latitude d = Some la \<and> ip_longitude d = Some lo \<and>
    truthy_num la \<and> truthy_num lo \<and> \<not> invalid_coordinates la lo \<and>
    \<not> truthy_str (ip_city d) \<and> \<not> truthy_str (ip_region d) \<and>
    \<not> truthy_str (ip_country_name d) \<longrightarrow>
      error (fst (fst (getLocation env force (st, storage)))) = None \<and>
      location (fst (fst (getLocation env force (st, storage)))) =
        Some \<lparr>latitude = la, longitude = lo, displayName = unknown_location\<rparr> \<and>
      unknown_location \<noteq> []) \<and>
   (net attempt = Response True status' (Inr (Some g)) \<and> spec_fragments g = [] \<longrightarrow>
      geocode_attempt net attempt =
        (if attempt = MAX_RETRIES then Throw (Error ''No location parts found'')
         else Continue)) \<and>
   ((force \<or> cache_lookup env storage = Inr None) \<and>
    geolocation env = GeoPosition lat lon \<and> \<not> invalid_coordinates lat lon \<and>
    reverse_geocode_api env 1 = Response True sa (Inr (Some ga)) \<and> spec_fragments ga = [] \<and>
    reverse_geocode_api env 2 = Response True sb (Inr (Some gb)) \<and> spec_fragments gb = [] \<and>
    reverse_geocode_api env 3 = Response True sc (Inr (Some gc)) \<and> spec_fragments gc = [] \<longrightarrow>
      precise_location env =
        ([GetCurrentPosition,
          Fetch (ReverseGeocode lat lon) 8000, Sleep 1000,
          Fetch (ReverseGeocode lat lon) 8000, Sleep 2000,
          Fetch (ReverseGeocode lat lon) 8000],
         Inl (Error ''No location parts found'')) \<and>
      snd (resolve_location env) = snd (ip_loop (ip_api env) 1) \<and>
      (\<forall>l. snd (ip_loop (ip_api env) 1) = Inr l \<longrightarrow>
           error (fst (fst (getLocation env force (st, storage)))) = None \<and>
           location (fst (fst (getLocation env force (st, storage)))) = Some l) \<and>
      (\<forall>e. snd (ip_loop (ip_api env) 1) = Inl e \<longrightarrow>
           error (fst (fst (getLocation env force (st, storage)))) =
             Some (if instanceof_Error e then err_message e else ''Location N/A'') \<and>
           location (fst (fst (getLocation env force (st, storage)))) = location st))"
  (is "?nonempty \<and> ?sentinel \<and> ?step \<and> ?fallback")
proof -
  have nonempty: ?nonempty
    using getLocation_success_nonempty by blast
  have sentinel: ?sentinel
  proof (intro impI)
    assume h: "(force \<or> cache_lookup env storage = Inr None) \<and>
      snd (precise_location env) = Inl geoError \<and>
      1 \<le> k \<and> k \<le> 3 \<and>
      (\<forall>j. 1 \<le> j \<and> j < k \<longrightarrow> ip_attempt (ip_api env) j = Continue) \<and>
      ip_api env k = Response True status (Inr (Some d)) \<and>
      ip_latitude d = Some la \<and> ip_longitude d = Some lo \<and>
      truthy_num la \<and> truthy_num lo \<and> \<not> invalid_coordinates la lo \<and>
      \<not> truthy_str (ip_city d) \<and> \<not> truthy_str (ip_region d) \<and>
      \<not> truthy_str (ip_country_name d)"
    let ?l = "\<lparr>latitude = la, longitude = lo, displayName = unknown_location\<rparr>"
    from h have miss: "force \<or> cache_lookup env storage = Inr None" by simp
    from h have ret: "ip_attempt (ip_api env) k = Return ?l"
      using ip_sentinel [of "ip_api env" k status d la lo] by blast
    from h have "snd (ip_loop (ip_api env) 1) = Inr ?l"
      using ip_loop_reaches [of 1 k "ip_api env" ?l] ret by (simp add: MAX_RETRIES_def)
    with h have "snd (resolve_location env) = Inr ?l"
      using resolve_location_fallback [of env geoError] by simp
    with getLocation_outcome [OF miss, where l = ?l and st = st]
    show "error (fst (fst (getLocation env force (st, storage)))) = None \<and>
      location (fst (fst (getLocation env force (st, storage)))) = Some ?l \<and>
      unknown_location \<noteq> []"
      by (simp add: unknown_location_nonempty)
  qed
  have step: ?step
    by (simp add: geocode_attempt_outcome geocode_outcome_def)
  have fallback: ?fallback
  proof (intro impI)
    assume h: "(force \<or> cache_lookup env storage = Inr None) \<and>
      geolocation env = GeoPosition lat lon \<and> \<not> invalid_coordinates lat lon \<and>
      reverse_geocode_api env 1 = Response True sa (Inr (Some ga)) \<and> spec_fragments ga = [] \<and>
      reverse_geocode_api env 2 = Response True sb (Inr (Some gb)) \<and> spec_fragments gb = [] \<and>
      reverse_geocode_api env 3 = Response True sc (Inr (Some gc)) \<and> spec_fragments gc = []"
    from h have miss: "force \<or> cache_lookup env storage = Inr None"
      and geo: "geolocation env = GeoPosition lat lon"
      and valid: "\<not> invalid_coordinates lat lon"
      by simp_all
    from h have r1: "retryable_failure (reverse_geocode_api env 1)"
      using nameless_retryable(2) [of "reverse_geocode_api env" 1 sa ga] by simp
    from h have r2: "retryable_failure (reverse_geocode_api env 2)"
      using nameless_retryable(2) [of "reverse_geocode_api env" 2 sb gb] by simp
    from h have r3: "geocode_outcome (reverse_geocode_api env 3) =
        Inl (Error ''No location parts found'')"
      using nameless_retryable(1) [of "reverse_geocode_api env" 3 sc gc] by simp
    have "fetchLocationName (reverse_geocode_api env) lat lon =
        ([Fetch (ReverseGeocode lat lon) 8000, Sleep 1000,
          Fetch (ReverseGeocode lat lon) 8000, Sleep 2000,
          Fetch (ReverseGeocode lat lon) 8000],
         Inl (Error ''No location parts found''))"
      using fetchLocationName_three [OF valid r1 r2] r3 by simp
    from precise_location_failed [OF geo valid this]
    have precise: "precise_location env =
        ([GetCurrentPosition,
          Fetch (ReverseGeocode lat lon) 8000, Sleep 1000,
          Fetch (ReverseGeocode lat lon) 8000, Sleep 2000,
          Fetch (ReverseGeocode lat lon) 8000],
         Inl (Error ''No location parts found''))"
      by simp
    then have res: "snd (resolve_location env) = snd (ip_loop (ip_api env) 1)"
      using resolve_location_fallback [of env "Error ''No location parts found''"] by simp
    have ok: "\<forall>l. snd (ip_loop (ip_api env) 1) = Inr l \<longrightarrow>
           error (fst (fst (getLocation env force (st, storage)))) = None \<and>
           location (fst (fst (getLocation env force (st, storage)))) = Some l"
      using getLocation_outcome [OF miss, where st = st] res by simp
    have bad: "\<forall>e. snd (ip_loop (ip_api env) 1) = Inl e \<longrightarrow>
           error (fst (fst (getLocation env force (st, storage)))) =
             Some (if instanceof_Error e then err_message e else ''Location N/A'') \<and>
           location (fst (fst (getLocation env force (st, storage)))) = location st"
      using getLocation_outcome [OF miss, where st = st] res by simp
    from precise res ok bad
    show "precise_location env =
        ([GetCurrentPosition,
          Fetch (ReverseGeocode lat lon) 8000, Sleep 1000,
          Fetch (ReverseGeocode lat lon) 8000, Sleep 2000,
          Fetch (ReverseGeocode lat lon) 8000],
         Inl (Error ''No location parts found'')) \<and>
      snd (resolve_location env) = snd (ip_loop (ip_api env) 1) \<and>
      (\<forall>l. snd (ip_loop (ip_api env) 1) = Inr l \<longrightarrow>
           error (fst (fst (getLocation env force (st, storage)))) = None \<and>
           location (fst (fst (getLocation env force (st, storage)))) = Some l) \<and>
      (\<forall>e. snd (ip_loop (ip_api env) 1) = Inl e \<longrightarrow>
           error (fst (fst (getLocation env force (st, storage)))) =
             Some (if instanceof_Error e then err_message e else ''Location N/A'') \<and>
           location (fst (fst (getLocation env force (st, storage)))) = location st)"
      by blast
  qed
  from nonempty sentinel step fallback show ?thesis by blast
qed

text \<open>The geolocation is denied, the first IP lookup answers 500 and the second gives
  coordinates and no usable name; a reverse-geocoding payload without fragments, on the
  first and on the last attempt; the geolocation answers and reverse geocoding never
  names the place, with an IP lookup that names Madrid and with one that is unreachable.\<close>

theorem resolved_displayName_witness:
  "(let env_a = \<lparr>JSON_parse = (\<lambda>s. Inl (JsError ''SyntaxError'' ''Unexpected token'')),
               JSON_stringify = (\<lambda>c. ''entry''),
               now_at_check = 1000, now_at_store = 2000,
               geolocation = GeoRejected,
               reverse_geocode_api = (\<lambda>attempt. Rejected NetworkError),
               ip_api = (\<lambda>attempt. if attempt = 1 then Response False 500 (Inl NonError)
                 else Response True 200 (Inr (Some
                 \<lparr>ip_latitude = Some (Fin 40.4168), ip_longitude = Some (Fin (- 3.7038)),
                  ip_city = None, ip_region = Some [], ip_country_name = None\<rparr>)))\<rparr>;
        nameless = (\<lambda>attempt. Response True 200 (Inr (Some
                 \<lparr>informative = [], locality = None, city = Some [],
                  principalSubdivision = None, countryName = None\<rparr>)));
        env_b = \<lparr>JSON_parse = (\<lambda>s. Inl (JsError ''SyntaxError'' ''Unexpected token'')),
               JSON_stringify = (\<lambda>c. ''entry''),
               now_at_check = 1000, now_at_store = 2000,
               geolocation = GeoPosition (Fin 40.4168) (Fin (- 3.7038)),
               reverse_geocode_api = nameless,
               ip_api = (\<lambda>attempt. Response True 200 (Inr (Some
                 \<lparr>ip_latitude = Some (Fin 40.4), ip_longitude = Some (Fin (- 3.7)),
                  ip_city = Some ''Madrid'', ip_region = None, ip_country_name = None\<rparr>)))\<rparr>;
        env_c = \<lparr>JSON_parse = (\<lambda>s. Inl (JsError ''SyntaxError'' ''Unexpected token'')),
               JSON_stringify = (\<lambda>c. ''entry''),
               now_at_check = 1000, now_at_store = 2000,
               geolocation = GeoPosition (Fin 40.4168) (Fin (- 3.7038)),
               reverse_geocode_api = nameless,
               ip_api = (\<lambda>attempt. Rejected NetworkError)\<rparr>;
        st = \<lparr>error = None, loading = True, location = None\<rparr>;
        r = getLocation env_a False (st, Map.empty)
    in location (fst (fst r)) =
         Some \<lparr>latitude = Fin 40.4168, longitude = Fin (- 3.7038),
               displayName = unknown_location\<rparr> \<and>
       (\<exists>l. location (fst (fst r)) = Some l \<and> displayName l \<noteq> []) \<and>
       geocode_attempt nameless 1 = Continue \<and>
       geocode_attempt nameless 3 = Throw (Error ''No location parts found'') \<and>
       precise_location env_b =
         ([GetCurrentPosition,
           Fetch (ReverseGeocode (Fin 40.4168) (Fin (- 3.7038))) 8000, Sleep 1000,
           Fetch (ReverseGeocode (Fin 40.4168) (Fin (- 3.7038))) 8000, Sleep 2000,
           Fetch (ReverseGeocode (Fin 40.4168) (Fin (- 3.7038))) 8000],
          Inl (Error ''No location parts found'')) \<and>
       location (fst (fst (getLocation env_b False (st, Map.empty)))) =
         Some \<lparr>latitude = Fin 40.4, longitude = Fin (- 3.7), displayName = ''Madrid''\<rparr> \<and>
       error (fst (fst (getLocation env_c False (st, Map.empty)))) = Some ''Failed to fetch'' \<and>
       location (fst (fst (getLocation env_c False (st, Map.empty)))) = None)"
proof -
  let ?d = "\<lparr>ip_latitude = Some (Fin 40.4168), ip_longitude = Some (Fin (- 3.7038)),
                  ip_city = None, ip_region = Some [], ip_country_name = None\<rparr>"
  let ?parse = "\<lambda>s::string. (Inl (JsError ''SyntaxError'' ''Unexpected token'')
                     :: js_error + LocationCache)"
  let ?env_a = "\<lparr>JSON_parse = ?parse,
               JSON_stringify = (\<lambda>c. ''entry''),
               now_at_check = 1000, now_at_store = 2000,
               geolocation = GeoRejected,
               reverse_geocode_api = (\<lambda>attempt. Rejected NetworkError),
               ip_api = (\<lambda>attempt. if attempt = 1 then Response False 500 (Inl NonError)
                 else Response True 200 (Inr (Some ?d)))\<rparr>"
  let ?st = "\<lparr>error = None, loading = True, location = None\<rparr>"
  let ?g = "\<lparr>informative = [], locality = None, city = Some [],
                  principalSubdivision = None, countryName = None\<rparr>"
  let ?nameless = "\<lambda>attempt::nat. Response True 200 (Inr (Some ?g))"
  let ?ip_b = "\<lambda>attempt::nat. Response True 200 (Inr (Some
                 \<lparr>ip_latitude = Some (Fin 40.4), ip_longitude = Some (Fin (- 3.7)),
                  ip_city = Some ''Madrid'', ip_region = None, ip_country_name = None\<rparr>))"
  let ?env_b = "\<lparr>JSON_parse = ?parse,
               JSON_stringify = (\<lambda>c. ''entry''),
               now_at_check = 1000, now_at_store = 2000,
               geolocation = GeoPosition (Fin 40.4168) (Fin (- 3.7038)),
               reverse_geocode_api = ?nameless,
               ip_api = ?ip_b\<rparr>"
  let ?ip_c = "\<lambda>attempt::nat. (Rejected NetworkError :: ip_data option http_result)"
  let ?env_c = "\<lparr>JSON_parse = ?parse,
               JSON_stringify = (\<lambda>c. ''entry''),
               now_at_check = 1000, now_at_store = 2000,
               geolocation = GeoPosition (Fin 40.4168) (Fin (- 3.7038)),
               reverse_geocode_api = ?nameless,
               ip_api = ?ip_c\<rparr>"
  have miss_a: "cache_lookup ?env_a Map.empty = Inr None"
    and miss_b: "cache_lookup ?env_b Map.empty = Inr None"
    and miss_c: "cache_lookup ?env_c Map.empty = Inr None"
    by (simp_all add: cache_lookup_def)
  have geo: "snd (precise_location ?env_a) = Inl NonError"
    by (simp add: precise_location_def)
  have valid: "\<not> invalid_coordinates (Fin 40.4168) (Fin (- 3.7038))"
    by (simp add: invalid_coordinates_def)
  have frag: "spec_fragments ?g = []"
    by (simp add: spec_fragments_def)
  have earlier: "\<forall>j. 1 \<le> j \<and> j < 2 \<longrightarrow> ip_attempt (ip_api ?env_a) j = Continue"
  proof (intro allI impI)
    fix j :: nat
    assume "1 \<le> j \<and> j < 2"
    then have "j = 1" by simp
    then show "ip_attempt (ip_api ?env_a) j = Continue"
      by (simp add: ip_attempt_def MAX_RETRIES_def)
  qed
  have two: "error (fst (fst (getLocation ?env_a False (?st, Map.empty)))) = None \<and>
      location (fst (fst (getLocation ?env_a False (?st, Map.empty)))) =
        Some \<lparr>latitude = Fin 40.4168, longitude = Fin (- 3.7038),
              displayName = unknown_location\<rparr> \<and>
      unknown_location \<noteq> []"
    using resolved_displayName
      [where force = False and storage = Map.empty and geoError = NonError and k = 2
         and status = 200 and la = "Fin 40.4168" and lo = "Fin (- 3.7038)"
         and st = ?st and d = ?d and env = ?env_a, THEN conjunct2, THEN conjunct1]
      miss_a geo valid earlier
    by simp
  have one: "\<exists>l. location (fst (fst (getLocation ?env_a False (?st, Map.empty)))) = Some l \<and>
      displayName l \<noteq> []"
    using resolved_displayName
      [where force = False and storage = Map.empty and st = ?st and env = ?env_a,
       THEN conjunct1]
      miss_a two
    by simp
  have three: "geocode_attempt ?nameless 1 = Continue"
    "geocode_attempt ?nameless 3 = Throw (Error ''No location parts found'')"
    using resolved_displayName
      [where net = ?nameless and attempt = 1 and status' = 200 and g = ?g,
       THEN conjunct2, THEN conjunct2, THEN conjunct1]
      resolved_displayName
      [where net = ?nameless and attempt = 3 and status' = 200 and g = ?g,
       THEN conjunct2, THEN conjunct2, THEN conjunct1]
      frag
    by (simp_all add: MAX_RETRIES_def)
  have ip_b: "snd (ip_loop ?ip_b 1) =
      Inr \<lparr>latitude = Fin 40.4, longitude = Fin (- 3.7), displayName = ''Madrid''\<rparr>"
    by (subst ip_loop.simps)
       (simp add: ip_attempt_def ip_displayName_def invalid_coordinates_def MAX_RETRIES_def)
  have ip_c: "snd (ip_loop ?ip_c 1) = Inl NetworkError"
    by (simp add: ip_loop.simps ip_attempt_def on_catch_def MAX_RETRIES_def
        is_AbortError_def NetworkError_def Error_def)
  have four_b: "precise_location ?env_b =
         ([GetCurrentPosition,
           Fetch (ReverseGeocode (Fin 40.4168) (Fin (- 3.7038))) 8000, Sleep 1000,
           Fetch (ReverseGeocode (Fin 40.4168) (Fin (- 3.7038))) 8000, Sleep 2000,
           Fetch (ReverseGeocode (Fin 40.4168) (Fin (- 3.7038))) 8000],
          Inl (Error ''No location parts found'')) \<and>
       location (fst (fst (getLocation ?env_b False (?st, Map.empty)))) =
         Some \<lparr>latitude = Fin 40.4, longitude = Fin (- 3.7), displayName = ''Madrid''\<rparr>"
    using resolved_displayName
      [where force = False and storage = Map.empty and st = ?st and env = ?env_b
         and lat = "Fin 40.4168" and lon = "Fin (- 3.7038)"
         and sa = 200 and sb = 200 and sc = 200 and ga = ?g and gb = ?g and gc = ?g,
       THEN conjunct2, THEN conjunct2, THEN conjunct2]
      miss_b valid frag ip_b
    by simp
  have four_c: "error (fst (fst (getLocation ?env_c False (?st, Map.empty)))) =
         Some ''Failed to fetch'' \<and>
       location (fst (fst (getLocation ?env_c False (?st, Map.empty)))) = None"
    using resolved_displayName
      [where force = False and storage = Map.empty and st = ?st and env = ?env_c
         and lat = "Fin 40.4168" and lon = "Fin (- 3.7038)"
         and sa = 200 and sb = 200 and sc = 200 and ga = ?g and gb = ?g and gc = ?g,
       THEN conjunct2, THEN conjunct2, THEN conjunct2]
      miss_c valid frag ip_c
    by (simp add: NetworkError_def)
  from one two three four_b four_c show ?thesis by (simp add: Let_def)
qed

text \<open>
  The claim as stated fails: the geolocation gives coordinates, reverse geocoding answers
  three times without any fragment, the IP lookup answers 500 three times, and the
  resolution ends in an error instead of a record carrying the sentinel.
\<close>

theorem no_fragment_failure_counterexample:
  "fst (fst (getLocation
      \<lparr>JSON_parse = (\<lambda>s. Inl (JsError ''SyntaxError'' ''Unexpected token'')),
       JSON_stringify = (\<lambda>c. ''entry''),
       now_at_check = 1000, now_at_store = 2000,
       geolocation = GeoPosition (Fin 40.4168) (Fin (- 3.7038)),
       reverse_geocode_api = (\<lambda>attempt. Response True 200 (Inr (Some
          \<lparr>informative = [], locality = None, city = None,
           principalSubdivision = None, countryName = None\<rparr>))),
       ip_api = (\<lambda>attempt. Response False 500 (Inl NonError))\<rparr>
      False (\<lparr>error = None, loading = True, location = None\<rparr>, Map.empty)))
   = \<lparr>error = Some ''IP API response not OK: 500'', loading = False, location = None\<rparr>"
  by (simp add: getLocation_def cache_lookup_def resolve_location_def precise_location_def
      invalid_coordinates_def fetchLocationName_def fetchLocationName_loop.simps
      geocode_attempt_def finalParts_spec spec_fragments_def street_of_def
      on_catch_def MAX_RETRIES_def is_AbortError_def Error_def
      ip_loop.simps ip_attempt_def location_failed_def Let_def
      string_of_nat.simps digit_char_def)

section \<open>The location cache\<close>

lemma cache_lookup_fresh:
  assumes "storage cacheKey = Some cached" and "cached \<noteq> []"
    and "JSON_parse env cached = Inr entry"
    and "now_at_check env - timestamp entry < CACHE_DURATION_LOCATION"
  shows "cache_lookup env storage = Inr (Some (data entry))"
  using assms by (simp add: cache_lookup_def)

lemma getLocation_cache_hit:
  assumes "cache_lookup env storage = Inr (Some d)"
  shows "getLocation env False (st, storage) =
           ((st\<lparr>error := None, loading := False, location := Some d\<rparr>, storage), [])"
  using assms by (simp add: getLocation_def)

text \<open>
  C1. A non-forced invocation that finds under the cache key a non-empty entry which parses
  to \<open>{timestamp, data}\<close> with \<open>now - timestamp\<close> below 10 minutes sets \<open>data\<close> as the
  location, unchanged, leaves the storage as it is and produces no event at all: no
  geolocation request, no network call. Hence, once a resolution has stored its record
  (and \<open>JSON.parse\<close> gives back the entry that \<open>JSON.stringify\<close> wrote), non-forced
  invocations whose clock is less than 10 minutes past the stored timestamp add no event
  and return the stored record: two of them make no external call between them, and a
  resolving invocation followed by one of them makes the external calls of that one
  resolution only.
\<close>

theorem fresh_cache_no_network:
  "(storage cacheKey = Some cached \<and> cached \<noteq> [] \<and> JSON_parse env cached = Inr entry \<and>
    now_at_check env - timestamp entry < 10 * 60 * 1000 \<longrightarrow>
      getLocation env False (st, storage) =
        ((st\<lparr>error := None, loading := False, location := Some (data entry)\<rparr>, storage), [])) \<and>
   ((force_a \<or> cache_lookup env_a storage_a = Inr None) \<and>
    resolve_location env_a = (evs_a, Inr l) \<and>
    JSON_stringify env_a \<lparr>timestamp = now_at_store env_a, data = l\<rparr> \<noteq> [] \<and>
    JSON_parse env_b (JSON_stringify env_a \<lparr>timestamp = now_at_store env_a, data = l\<rparr>) =
      Inr \<lparr>timestamp = now_at_store env_a, data = l\<rparr> \<and>
    JSON_parse env_c (JSON_stringify env_a \<lparr>timestamp = now_at_store env_a, data = l\<rparr>) =
      Inr \<lparr>timestamp = now_at_store env_a, data = l\<rparr> \<and>
    now_at_check env_b - now_at_store env_a < 10 * 60 * 1000 \<and>
    now_at_check env_c - now_at_store env_a < 10 * 60 * 1000 \<longrightarrow>
      (let r0 = getLocation env_a force_a (st_a, storage_a);
           r1 = getLocation env_b False (fst r0);
           r2 = getLocation env_c False (fst r1)
       in snd r0 = evs_a \<and> location (fst (fst r0)) = Some l \<and>
          snd r1 = [] \<and> location (fst (fst r1)) = Some l \<and> error (fst (fst r1)) = None \<and>
          snd r2 = [] \<and> location (fst (fst r2)) = Some l \<and> error (fst (fst r2)) = None \<and>
          snd (fst r1) = snd (fst r0) \<and> snd (fst r2) = snd (fst r0) \<and>
          filter is_external_call (snd r0 @ snd r1) = filter is_external_call evs_a \<and>
          length (filter is_external_call (snd r1 @ snd r2)) \<le> 1))"
proof (intro conjI impI)
  assume "storage cacheKey = Some cached \<and> cached \<noteq> [] \<and> JSON_parse env cached = Inr entry \<and>
    now_at_check env - timestamp entry < 10 * 60 * 1000"
  then have "cache_lookup env storage = Inr (Some (data entry))"
    using cache_lookup_fresh [of storage cached env entry]
    by (simp add: CACHE_DURATION_LOCATION_def)
  then show "getLocation env False (st, storage) =
      ((st\<lparr>error := None, loading := False, location := Some (data entry)\<rparr>, storage), [])"
    by (rule getLocation_cache_hit)
next
  let ?e = "\<lparr>timestamp = now_at_store env_a, data = l\<rparr>"
  let ?sto = "storage_a(cacheKey \<mapsto> JSON_stringify env_a ?e)"
  assume h: "(force_a \<or> cache_lookup env_a storage_a = Inr None) \<and>
    resolve_location env_a = (evs_a, Inr l) \<and>
    JSON_stringify env_a ?e \<noteq> [] \<and>
    JSON_parse env_b (JSON_stringify env_a ?e) = Inr ?e \<and>
    JSON_parse env_c (JSON_stringify env_a ?e) = Inr ?e \<and>
    now_at_check env_b - now_at_store env_a < 10 * 60 * 1000 \<and>
    now_at_check env_c - now_at_store env_a < 10 * 60 * 1000"
  then have r0: "getLocation env_a force_a (st_a, storage_a) =
      ((st_a\<lparr>error := None, loading := False, location := Some l\<rparr>, ?sto), evs_a)"
    using getLocation_resolved [of force_a env_a storage_a evs_a l st_a] by blast
  have hit1: "cache_lookup env_b ?sto = Inr (Some l)"
    using h cache_lookup_fresh [of ?sto "JSON_stringify env_a ?e" env_b ?e]
    by (simp add: CACHE_DURATION_LOCATION_def)
  have hit2: "cache_lookup env_c ?sto = Inr (Some l)"
    using h cache_lookup_fresh [of ?sto "JSON_stringify env_a ?e" env_c ?e]
    by (simp add: CACHE_DURATION_LOCATION_def)
  have r1: "getLocation env_b False (st_a\<lparr>error := None, loading := False, location := Some l\<rparr>, ?sto) =
      ((st_a\<lparr>error := None, loading := False, location := Some l\<rparr>, ?sto), [])"
    using getLocation_cache_hit [OF hit1] by simp
  have r2: "getLocation env_c False (st_a\<lparr>error := None, loading := False, location := Some l\<rparr>, ?sto) =
      ((st_a\<lparr>error := None, loading := False, location := Some l\<rparr>, ?sto), [])"
    using getLocation_cache_hit [OF hit2] by simp
  show "let r0 = getLocation env_a force_a (st_a, storage_a);
           r1 = getLocation env_b False (fst r0);
           r2 = getLocation env_c False (fst r1)
       in snd r0 = evs_a \<and> location (fst (fst r0)) = Some l \<and>
          snd r1 = [] \<and> location (fst (fst r1)) = Some l \<and> error (fst (fst r1)) = None \<and>
          snd r2 = [] \<and> location (fst (fst r2)) = Some l \<and> error (fst (fst r2)) = None \<and>
          snd (fst r1) = snd (fst r0) \<and> snd (fst r2) = snd (fst r0) \<and>
          filter is_external_call (snd r0 @ snd r1) = filter is_external_call evs_a \<and>
          length (filter is_external_call (snd r1 @ snd r2)) \<le> 1"
    by (simp add: Let_def r0 r1 r2)
qed


text \<open>An entry stored just under ten minutes ago; and a resolution through reverse
  geocoding followed by two non-forced invocations five and eight minutes later.\<close>

theorem fresh_cache_no_network_witness:
  "getLocation
     \<lparr>JSON_parse = (\<lambda>s. if s = ''entry''
        then Inr \<lparr>timestamp = 1700000000000,
                 data = \<lparr>latitude = Fin 40.4168, longitude = Fin (- 3.7038),
                         displayName = ''Centro, Madrid, Spain''\<rparr>\<rparr>
        else Inl (JsError ''SyntaxError'' ''Unexpected token'')),
      JSON_stringify = (\<lambda>c. ''entry''),
      now_at_check = 1700000599999, now_at_store = 1700000600500,
      geolocation = GeoRejected,
      reverse_geocode_api = (\<lambda>attempt. Rejected NetworkError),
      ip_api = (\<lambda>attempt. Rejected NetworkError)\<rparr>
     False (\<lparr>error = Some ''old'', loading = True, location = None\<rparr>, [cacheKey \<mapsto> ''entry''])
   = ((\<lparr>error = None, loading = False,
        location = Some \<lparr>latitude = Fin 40.4168, longitude = Fin (- 3.7038),
                         displayName = ''Centro, Madrid, Spain''\<rparr>\<rparr>,
       [cacheKey \<mapsto> ''entry'']), []) \<and>
   (let env0 =
          \<lparr>JSON_parse = (\<lambda>s. if s = ''entry''
             then Inr \<lparr>timestamp = 1700000001000,
                      data = \<lparr>latitude = Fin 40.4168, longitude = Fin (- 3.7038),
                              displayName = ''Centro, Madrid, Spain''\<rparr>\<rparr>
             else Inl (JsError ''SyntaxError'' ''Unexpected token'')),
           JSON_stringify = (\<lambda>c. ''entry''),
           now_at_check = 1700000000000, now_at_store = 1700000001000,
           geolocation = GeoPosition (Fin 40.4168) (Fin (- 3.7038)),
           reverse_geocode_api = (\<lambda>attempt. Response True 200 (Inr (Some
             \<lparr>informative = [], locality = Some ''Centro'', city = Some ''Madrid'',
              principalSubdivision = None, countryName = Some ''Spain''\<rparr>))),
           ip_api = (\<lambda>attempt. Rejected NetworkError)\<rparr>;
        r0 = getLocation env0 False (\<lparr>error = None, loading = True, location = None\<rparr>, Map.empty);
        r1 = getLocation (env0\<lparr>now_at_check := 1700000300000\<rparr>) False (fst r0);
        r2 = getLocation (env0\<lparr>now_at_check := 1700000500000\<rparr>) False (fst r1)
    in snd r0 = [GetCurrentPosition,
                 Fetch (ReverseGeocode (Fin 40.4168) (Fin (- 3.7038))) 8000,
                 Track ''locationGeolocationSuccess''] \<and>
       snd r1 = [] \<and> snd r2 = [] \<and>
       location (fst (fst r1)) =
         Some \<lparr>latitude = Fin 40.4168, longitude = Fin (- 3.7038),
               displayName = ''Centro, Madrid, Spain''\<rparr> \<and>
       location (fst (fst r2)) =
         Some \<lparr>latitude = Fin 40.4168, longitude = Fin (- 3.7038),
               displayName = ''Centro, Madrid, Spain''\<rparr>)"
  (is "?hit \<and> ?later")
proof -
  let ?loc = "\<lparr>latitude = Fin 40.4168, longitude = Fin (- 3.7038),
               displayName = ''Centro, Madrid, Spain''\<rparr>"
  let ?env0 = "\<lparr>JSON_parse = (\<lambda>s. if s = ''entry''
             then Inr \<lparr>timestamp = 1700000001000, data = ?loc\<rparr>
             else Inl (JsError ''SyntaxError'' ''Unexpected token'')),
           JSON_stringify = (\<lambda>c. ''entry''),
           now_at_check = 1700000000000, now_at_store = 1700000001000,
           geolocation = GeoPosition (Fin 40.4168) (Fin (- 3.7038)),
           reverse_geocode_api = (\<lambda>attempt. Response True 200 (Inr (Some
             \<lparr>informative = [], locality = Some ''Centro'', city = Some ''Madrid'',
              principalSubdivision = None, countryName = Some ''Spain''\<rparr>))),
           ip_api = (\<lambda>attempt. Rejected NetworkError)\<rparr>"
  let ?evs = "[GetCurrentPosition,
                 Fetch (ReverseGeocode (Fin 40.4168) (Fin (- 3.7038))) 8000,
                 Track ''locationGeolocationSuccess'']"
  have res: "resolve_location ?env0 = (?evs, Inr ?loc)"
    by (simp add: resolve_location_def precise_location_def
        invalid_coordinates_def fetchLocationName_def fetchLocationName_loop.simps
        geocode_attempt_def finalParts_spec spec_fragments_def street_of_def
        MAX_RETRIES_def TIMEOUT_REVERSE_GEOCODE_def)
  have miss: "cache_lookup ?env0 Map.empty = Inr None"
    by (simp add: cache_lookup_def)
  have hit: "?hit"
    using fresh_cache_no_network
      [where storage = "[cacheKey \<mapsto> ''entry'']" and cached = "''entry''"
         and entry = "\<lparr>timestamp = 1700000000000,
                 data = \<lparr>latitude = Fin 40.4168, longitude = Fin (- 3.7038),
                         displayName = ''Centro, Madrid, Spain''\<rparr>\<rparr>"
         and st = "\<lparr>error = Some ''old'', loading = True, location = None\<rparr>"
         and env = "\<lparr>JSON_parse = (\<lambda>s. if s = ''entry''
        then Inr \<lparr>timestamp = 1700000000000,
                 data = \<lparr>latitude = Fin 40.4168, longitude = Fin (- 3.7038),
                         displayName = ''Centro, Madrid, Spain''\<rparr>\<rparr>
        else Inl (JsError ''SyntaxError'' ''Unexpected token'')),
      JSON_stringify = (\<lambda>c. ''entry''),
      now_at_check = 1700000599999, now_at_store = 1700000600500,
      geolocation = GeoRejected,
      reverse_geocode_api = (\<lambda>attempt. Rejected NetworkError),
      ip_api = (\<lambda>attempt. Rejected NetworkError)\<rparr>",
       THEN conjunct1]
    by simp
  have later: "?later"
    using res miss fresh_cache_no_network
      [where env_a = ?env0 and force_a = False and storage_a = Map.empty
         and evs_a = ?evs and l = ?loc
         and env_b = "?env0\<lparr>now_at_check := 1700000300000\<rparr>"
         and env_c = "?env0\<lparr>now_at_check := 1700000500000\<rparr>"
         and st_a = "\<lparr>error = None, loading = True, location = None\<rparr>",
       THEN conjunct2]
    by (simp add: Let_def)
  from hit later show ?thesis by (rule conjI)
qed

section \<open>A cache entry that is not JSON\<close>

lemma getLocation_parse_failure:
  assumes "storage cacheKey = Some cached" and "cached \<noteq> []"
    and "JSON_parse env cached = Inl (JsError nm msg)"
  shows "getLocation env False (st, storage) =
           ((st\<lparr>error := Some msg, loading := False\<rparr>, storage),
            [Track ''locationError'', Toast (LocationErrorToast msg)])"
  using assms by (simp add: getLocation_def cache_lookup_def location_failed_def)

lemma getLocation_parse_failure_repeat:
  assumes "storage cacheKey = Some cached" and "cached \<noteq> []"
    and "JSON_parse env cached = Inl (JsError nm msg)"
  shows "((\<lambda>w. fst (getLocation env False w)) ^^ Suc k) (st, storage) =
           (st\<lparr>error := Some msg, loading := False\<rparr>, storage)"
proof (induction k)
  case 0
  show ?case
    using assms getLocation_parse_failure
      [where storage = storage and cached = cached and env = env and msg = msg and st = st]
    by simp
next
  case (Suc k)
  have "((\<lambda>w. fst (getLocation env False w)) ^^ Suc (Suc k)) (st, storage) =
      fst (getLocation env False (st\<lparr>error := Some msg, loading := False\<rparr>, storage))"
    using Suc.IH by simp
  also have "\<dots> = (st\<lparr>error := Some msg, loading := False\<rparr>, storage)"
    using assms getLocation_parse_failure
      [where storage = storage and cached = cached and env = env and msg = msg
         and st = "st\<lparr>error := Some msg, loading := False\<rparr>"]
    by simp
  finally show ?case .
qed

lemma getLocation_keeps_entry:
  assumes "storage cacheKey = Some cached" and "cached \<noteq> []"
    and "if force then (\<exists>e. snd (resolve_location env) = Inl e)
         else (\<exists>e. JSON_parse env cached = Inl e)"
  shows "snd (fst (getLocation env force (st, storage))) = storage"
proof (cases force)
  case True
  with assms obtain evs e where "resolve_location env = (evs, Inl e)"
    by (cases "resolve_location env") auto
  with True show ?thesis
    by (simp add: getLocation_def location_failed_def Let_def)
next
  case False
  with assms obtain e where "JSON_parse env cached = Inl e" by auto
  with False assms show ?thesis
    by (simp add: getLocation_def cache_lookup_def location_failed_def Let_def)
qed

lemma run_invocations_keeps_entry:
  assumes "storage cacheKey = Some cached" and "cached \<noteq> []"
  shows "(\<forall>c \<in> set calls. if snd c then (\<exists>e. snd (resolve_location (fst c)) = Inl e)
                            else (\<exists>e. JSON_parse (fst c) cached = Inl e)) \<Longrightarrow>
         snd (run_invocations calls (st, storage)) = storage"
proof (induction calls arbitrary: st)
  case Nil
  show ?case by simp
next
  case (Cons c calls)
  obtain env force where c: "c = (env, force)" by (cases c)
  from Cons.prems c
  have "if force then (\<exists>e. snd (resolve_location env) = Inl e)
        else (\<exists>e. JSON_parse env cached = Inl e)"
    by (cases force) simp_all
  with assms have "snd (fst (getLocation env force (st, storage))) = storage"
    using getLocation_keeps_entry [of storage cached force env st] by simp
  then obtain st' where "fst (getLocation env force (st, storage)) = (st', storage)"
    by (cases "fst (getLocation env force (st, storage))") simp
  moreover have "snd (run_invocations calls (st', storage)) = storage"
    using Cons.IH Cons.prems by simp
  ultimately show ?case by (simp add: c)
qed

lemma getLocation_forced_overwrites:
  assumes "snd (resolve_location env) = Inr l"
  shows "fst (getLocation env True (st, storage)) =
           (st\<lparr>error := None, loading := False, location := Some l\<rparr>,
            storage(cacheKey \<mapsto> JSON_stringify env \<lparr>timestamp = now_at_store env, data = l\<rparr>))"
proof -
  from assms obtain evs where "resolve_location env = (evs, Inr l)"
    by (cases "resolve_location env") simp
  then show ?thesis
    using getLocation_resolved [where force = True and env = env and evs = evs and l = l
        and st = st and storage = storage]
    by simp
qed

lemma getLocation_empty_entry:
  assumes "storage cacheKey = Some []"
  shows "getLocation env False (st, storage) = getLocation env True (st, storage)"
  using assms by (simp add: getLocation_def cache_lookup_def)

text \<open>
  C10 (as amended). When the entry under the key "user-location" is present, not the empty
  string, and \<open>JSON.parse\<close> throws on it, a non-forced invocation ends in the outer handler:
  the error state holds the message of the thrown error, loading is false, the only events
  are the failure's telemetry and toast (no geolocation request, no network call), and the
  storage is unchanged. The entry stays through any sequence of non-forced invocations and
  of forced refreshes that fail to resolve, and a non-forced invocation after such a
  sequence, whatever its clock and network, ends the same way. A forced refresh that
  resolves overwrites the entry with the record it stores, and a non-forced invocation
  that reads that record back within 10 minutes returns it without an error. An entry
  that is the empty string is never parsed: the non-forced invocation does exactly what a
  forced one does.
\<close>

theorem corrupt_cache_fails:
  "(storage cacheKey = Some cached \<and> cached \<noteq> [] \<and>
    JSON_parse env cached = Inl (JsError nm msg) \<longrightarrow>
     getLocation env False (st, storage) =
       ((st\<lparr>error := Some msg, loading := False\<rparr>, storage),
        [Track ''locationError'', Toast (LocationErrorToast msg)]) \<and>
     filter is_external_call (snd (getLocation env False (st, storage))) = [] \<and>
     ((\<lambda>w. fst (getLocation env False w)) ^^ Suc k) (st, storage) =
       (st\<lparr>error := Some msg, loading := False\<rparr>, storage) \<and>
     (JSON_parse env' cached = Inl (JsError nm' msg') \<longrightarrow>
        getLocation env' False (fst (getLocation env False (st, storage))) =
          ((st\<lparr>error := Some msg', loading := False\<rparr>, storage),
           [Track ''locationError'', Toast (LocationErrorToast msg')])) \<and>
     ((\<forall>c \<in> set calls. if snd c then (\<exists>e. snd (resolve_location (fst c)) = Inl e)
                         else (\<exists>e. JSON_parse (fst c) cached = Inl e)) \<longrightarrow>
        snd (run_invocations calls (st, storage)) = storage \<and>
        getLocation env False (run_invocations calls (st, storage)) =
          ((fst (run_invocations calls (st, storage))\<lparr>error := Some msg, loading := False\<rparr>,
            storage),
           [Track ''locationError'', Toast (LocationErrorToast msg)]))) \<and>
   (snd (resolve_location env_f) = Inr l \<longrightarrow>
      fst (getLocation env_f True (st, storage)) =
        (st\<lparr>error := None, loading := False, location := Some l\<rparr>,
         storage(cacheKey \<mapsto>
           JSON_stringify env_f \<lparr>timestamp = now_at_store env_f, data = l\<rparr>)) \<and>
      (JSON_parse env_n (JSON_stringify env_f \<lparr>timestamp = now_at_store env_f, data = l\<rparr>) =
         Inr \<lparr>timestamp = now_at_store env_f, data = l\<rparr> \<and>
       JSON_stringify env_f \<lparr>timestamp = now_at_store env_f, data = l\<rparr> \<noteq> [] \<and>
       now_at_check env_n - now_at_store env_f < CACHE_DURATION_LOCATION \<longrightarrow>
         getLocation env_n False (fst (getLocation env_f True (st, storage))) =
           ((st\<lparr>error := None, loading := False, location := Some l\<rparr>,
             storage(cacheKey \<mapsto>
               JSON_stringify env_f \<lparr>timestamp = now_at_store env_f, data = l\<rparr>)), []))) \<and>
   (storage cacheKey = Some [] \<longrightarrow>
      getLocation env False (st, storage) = getLocation env True (st, storage))"
  (is "(?corrupt \<longrightarrow> ?first \<and> ?quiet \<and> ?repeat \<and> ?next \<and> ?later) \<and> ?forced \<and> ?empty")
proof (intro conjI)
  show "?corrupt \<longrightarrow> ?first \<and> ?quiet \<and> ?repeat \<and> ?next \<and> ?later"
  proof (intro impI)
    assume h: ?corrupt
    then have a: "storage cacheKey = Some cached" and b: "cached \<noteq> []"
      and c: "JSON_parse env cached = Inl (JsError nm msg)"
      by simp_all
    have first: ?first
      using a b c getLocation_parse_failure
        [where storage = storage and cached = cached and env = env and msg = msg and st = st]
      by simp
    have quiet: ?quiet by (simp add: first)
    have repeat: ?repeat
      using a b c getLocation_parse_failure_repeat
        [where storage = storage and cached = cached and env = env and msg = msg
           and st = st and k = k]
      by simp
    have "next": ?next
    proof
      assume "JSON_parse env' cached = Inl (JsError nm' msg')"
      then show "getLocation env' False (fst (getLocation env False (st, storage))) =
          ((st\<lparr>error := Some msg', loading := False\<rparr>, storage),
           [Track ''locationError'', Toast (LocationErrorToast msg')])"
        using a b getLocation_parse_failure
          [where storage = storage and cached = cached and env = env' and msg = msg'
             and st = "st\<lparr>error := Some msg, loading := False\<rparr>"]
        by (simp add: first)
    qed
    have later: ?later
    proof
      assume calls: "\<forall>c \<in> set calls. if snd c then (\<exists>e. snd (resolve_location (fst c)) = Inl e)
                         else (\<exists>e. JSON_parse (fst c) cached = Inl e)"
      have kept: "snd (run_invocations calls (st, storage)) = storage"
        using a b calls run_invocations_keeps_entry
          [where storage = storage and cached = cached and calls = calls and st = st]
        by simp
      then have w: "run_invocations calls (st, storage) =
          (fst (run_invocations calls (st, storage)), storage)"
        by (cases "run_invocations calls (st, storage)") simp
      have "getLocation env False (fst (run_invocations calls (st, storage)), storage) =
          ((fst (run_invocations calls (st, storage))\<lparr>error := Some msg, loading := False\<rparr>,
            storage),
           [Track ''locationError'', Toast (LocationErrorToast msg)])"
        using a b c getLocation_parse_failure
          [where storage = storage and cached = cached and env = env and msg = msg
             and st = "fst (run_invocations calls (st, storage))"]
        by simp
      with w kept
      show "snd (run_invocations calls (st, storage)) = storage \<and>
        getLocation env False (run_invocations calls (st, storage)) =
          ((fst (run_invocations calls (st, storage))\<lparr>error := Some msg, loading := False\<rparr>,
            storage),
           [Track ''locationError'', Toast (LocationErrorToast msg)])"
        by simp
    qed
    from first quiet repeat "next" later
    show "?first \<and> ?quiet \<and> ?repeat \<and> ?next \<and> ?later" by blast
  qed
next
  show ?forced
  proof (intro impI conjI)
    assume r: "snd (resolve_location env_f) = Inr l"
    then show over: "fst (getLocation env_f True (st, storage)) =
        (st\<lparr>error := None, loading := False, location := Some l\<rparr>,
         storage(cacheKey \<mapsto>
           JSON_stringify env_f \<lparr>timestamp = now_at_store env_f, data = l\<rparr>))"
      by (rule getLocation_forced_overwrites)
    assume p: "JSON_parse env_n (JSON_stringify env_f \<lparr>timestamp = now_at_store env_f, data = l\<rparr>) =
         Inr \<lparr>timestamp = now_at_store env_f, data = l\<rparr> \<and>
       JSON_stringify env_f \<lparr>timestamp = now_at_store env_f, data = l\<rparr> \<noteq> [] \<and>
       now_at_check env_n - now_at_store env_f < CACHE_DURATION_LOCATION"
    let ?entry = "JSON_stringify env_f \<lparr>timestamp = now_at_store env_f, data = l\<rparr>"
    from p have "cache_lookup env_n (storage(cacheKey \<mapsto> ?entry)) = Inr (Some l)"
      using cache_lookup_fresh [where storage = "storage(cacheKey \<mapsto> ?entry)"
          and cached = ?entry and env = env_n
          and entry = "\<lparr>timestamp = now_at_store env_f, data = l\<rparr>"]
      by simp
    from getLocation_cache_hit [OF this, of "st\<lparr>error := None, loading := False, location := Some l\<rparr>"]
    show "getLocation env_n False (fst (getLocation env_f True (st, storage))) =
           ((st\<lparr>error := None, loading := False, location := Some l\<rparr>,
             storage(cacheKey \<mapsto> ?entry)), [])"
      by (simp add: over)
  qed
next
  show ?empty
    using getLocation_empty_entry by blast
qed

text \<open>An entry that is not JSON, with a device that could have been located: one
  invocation; a non-forced invocation, a forced refresh while offline and another
  non-forced invocation, followed by a later one; a forced refresh that resolves, followed
  by a non-forced invocation; and the entry that is the empty string.\<close>

theorem corrupt_cache_fails_witness:
  "(let madrid = \<lparr>latitude = Fin 40, longitude = Fin (- 4),
                   displayName = ''Centro, Madrid, Spain''\<rparr>;
        parse = (\<lambda>s. if s = ''entry''
                      then Inr \<lparr>timestamp = 1700000300500, data = madrid\<rparr>
                      else Inl (JsError ''SyntaxError'' ''Unexpected token o in JSON''));
        named = (\<lambda>attempt. Response True 200 (Inr (Some
                  \<lparr>informative = [], locality = Some ''Centro'', city = Some ''Madrid'',
                   principalSubdivision = None, countryName = Some ''Spain''\<rparr>)));
        env = \<lparr>JSON_parse = parse, JSON_stringify = (\<lambda>c. ''entry''),
               now_at_check = 1700000300000, now_at_store = 1700000300500,
               geolocation = GeoPosition (Fin 40) (Fin (- 4)),
               reverse_geocode_api = named,
               ip_api = (\<lambda>attempt. Rejected NetworkError)\<rparr>;
        offline = \<lparr>JSON_parse = parse, JSON_stringify = (\<lambda>c. ''entry''),
               now_at_check = 1700000350000, now_at_store = 1700000350500,
               geolocation = GeoRejected,
               reverse_geocode_api = (\<lambda>attempt. Rejected NetworkError),
               ip_api = (\<lambda>attempt. Rejected NetworkError)\<rparr>;
        later = \<lparr>JSON_parse = parse, JSON_stringify = (\<lambda>c. ''entry''),
               now_at_check = 1700000400000, now_at_store = 1700000400500,
               geolocation = GeoPosition (Fin 40) (Fin (- 4)),
               reverse_geocode_api = named,
               ip_api = (\<lambda>attempt. Rejected NetworkError)\<rparr>;
        st = \<lparr>error = None, loading = True, location = None\<rparr>;
        corrupt = [cacheKey \<mapsto> ''not json''];
        after = getLocation later False
                  (run_invocations [(env, False), (offline, True), (env, False)] (st, corrupt))
    in getLocation env False (st, corrupt) =
         ((\<lparr>error = Some ''Unexpected token o in JSON'', loading = False, location = None\<rparr>,
           corrupt),
          [Track ''locationError'', Toast (LocationErrorToast ''Unexpected token o in JSON'')]) \<and>
       snd (run_invocations [(env, False), (offline, True), (env, False)] (st, corrupt)) =
         corrupt \<and>
       error (fst (fst after)) = Some ''Unexpected token o in JSON'' \<and>
       snd (fst after) = corrupt \<and>
       snd after =
         [Track ''locationError'', Toast (LocationErrorToast ''Unexpected token o in JSON'')] \<and>
       fst (getLocation env True (st, corrupt)) =
         (\<lparr>error = None, loading = False, location = Some madrid\<rparr>, [cacheKey \<mapsto> ''entry'']) \<and>
       getLocation later False (fst (getLocation env True (st, corrupt))) =
         ((\<lparr>error = None, loading = False, location = Some madrid\<rparr>,
           [cacheKey \<mapsto> ''entry'']), []) \<and>
       fst (getLocation env False (st, [cacheKey \<mapsto> []])) =
         (\<lparr>error = None, loading = False, location = Some madrid\<rparr>, [cacheKey \<mapsto> ''entry'']))"
proof -
  let ?madrid = "\<lparr>latitude = Fin 40, longitude = Fin (- 4),
                   displayName = ''Centro, Madrid, Spain''\<rparr>"
  let ?parse = "\<lambda>s. if s = ''entry''
                      then Inr \<lparr>timestamp = 1700000300500, data = ?madrid\<rparr>
                      else Inl (JsError ''SyntaxError'' ''Unexpected token o in JSON'')"
  let ?named = "\<lambda>attempt::nat. Response True 200 (Inr (Some
                  \<lparr>informative = [], locality = Some ''Centro'', city = Some ''Madrid'',
                   principalSubdivision = None, countryName = Some ''Spain''\<rparr>))"
  let ?unreachable = "\<lambda>attempt::nat. (Rejected NetworkError :: ip_data option http_result)"
  let ?env = "\<lparr>JSON_parse = ?parse, JSON_stringify = (\<lambda>c. ''entry''),
               now_at_check = 1700000300000, now_at_store = 1700000300500,
               geolocation = GeoPosition (Fin 40) (Fin (- 4)),
               reverse_geocode_api = ?named,
               ip_api = ?unreachable\<rparr>"
  let ?offline = "\<lparr>JSON_parse = ?parse, JSON_stringify = (\<lambda>c. ''entry''),
               now_at_check = 1700000350000, now_at_store = 1700000350500,
               geolocation = GeoRejected,
               reverse_geocode_api = (\<lambda>attempt. Rejected NetworkError),
               ip_api = ?unreachable\<rparr>"
  let ?later = "\<lparr>JSON_parse = ?parse, JSON_stringify = (\<lambda>c. ''entry''),
               now_at_check = 1700000400000, now_at_store = 1700000400500,
               geolocation = GeoPosition (Fin 40) (Fin (- 4)),
               reverse_geocode_api = ?named,
               ip_api = ?unreachable\<rparr>"
  let ?st = "\<lparr>error = None, loading = True, location = None\<rparr>"
  let ?corrupt = "[cacheKey \<mapsto> ''not json'']"
  let ?calls = "[(?env, False), (?offline, True), (?env, False)]"
  let ?msg = "''Unexpected token o in JSON''"
  have offline: "snd (resolve_location ?offline) = Inl NetworkError"
    by (simp add: resolve_location_def precise_location_def ip_loop.simps ip_attempt_def
        on_catch_def MAX_RETRIES_def is_AbortError_def NetworkError_def)
  have resolved: "snd (resolve_location ?env) = Inr ?madrid"
    by (simp add: resolve_location_def precise_location_def invalid_coordinates_def
        fetchLocationName_def fetchLocationName_loop.simps geocode_attempt_def
        finalParts_spec spec_fragments_def MAX_RETRIES_def)
  have calls: "\<forall>c \<in> set ?calls.
      if snd c then (\<exists>e. snd (resolve_location (fst c)) = Inl e)
      else (\<exists>e. JSON_parse (fst c) ''not json'' = Inl e)"
    using offline by simp
  have first: "getLocation ?env False (?st, ?corrupt) =
         ((\<lparr>error = Some ?msg, loading = False, location = None\<rparr>, ?corrupt),
          [Track ''locationError'', Toast (LocationErrorToast ?msg)])"
    using corrupt_cache_fails
      [where storage = ?corrupt and cached = "''not json''"
         and nm = "''SyntaxError''" and msg = ?msg and st = ?st and env = ?env,
       THEN conjunct1]
    by simp
  have seq: "snd (run_invocations ?calls (?st, ?corrupt)) = ?corrupt \<and>
      getLocation ?later False (run_invocations ?calls (?st, ?corrupt)) =
        ((fst (run_invocations ?calls (?st, ?corrupt))\<lparr>error := Some ?msg, loading := False\<rparr>,
          ?corrupt),
         [Track ''locationError'', Toast (LocationErrorToast ?msg)])"
    using corrupt_cache_fails
      [where storage = ?corrupt and cached = "''not json''"
         and nm = "''SyntaxError''" and msg = ?msg and st = ?st and env = ?later
         and calls = ?calls,
       THEN conjunct1]
      calls
    by simp
  have over: "fst (getLocation ?env True (?st, ?corrupt)) =
         (\<lparr>error = None, loading = False, location = Some ?madrid\<rparr>, [cacheKey \<mapsto> ''entry''])"
    using corrupt_cache_fails
      [where storage = ?corrupt and st = ?st and env_f = ?env and l = ?madrid,
       THEN conjunct2, THEN conjunct1]
      resolved
    by simp
  have fresh: "JSON_parse ?later
        (JSON_stringify ?env \<lparr>timestamp = now_at_store ?env, data = ?madrid\<rparr>) =
         Inr \<lparr>timestamp = now_at_store ?env, data = ?madrid\<rparr> \<and>
       JSON_stringify ?env \<lparr>timestamp = now_at_store ?env, data = ?madrid\<rparr> \<noteq> [] \<and>
       now_at_check ?later - now_at_store ?env < CACHE_DURATION_LOCATION"
    by (simp add: CACHE_DURATION_LOCATION_def)
  have "getLocation ?later False (fst (getLocation ?env True (?st, ?corrupt))) =
         ((?st\<lparr>error := None, loading := False, location := Some ?madrid\<rparr>,
           ?corrupt(cacheKey \<mapsto>
             JSON_stringify ?env \<lparr>timestamp = now_at_store ?env, data = ?madrid\<rparr>)), [])"
    using corrupt_cache_fails
      [where storage = ?corrupt and st = ?st and env_f = ?env and env_n = ?later
         and l = ?madrid,
       THEN conjunct2, THEN conjunct1, THEN mp, OF resolved, THEN conjunct2, THEN mp,
       OF fresh] .
  then have forced: "getLocation ?later False (fst (getLocation ?env True (?st, ?corrupt))) =
         ((\<lparr>error = None, loading = False, location = Some ?madrid\<rparr>,
           [cacheKey \<mapsto> ''entry'']), [])"
    by simp
  have empty: "fst (getLocation ?env False (?st, [cacheKey \<mapsto> []])) =
         (\<lparr>error = None, loading = False, location = Some ?madrid\<rparr>, [cacheKey \<mapsto> ''entry''])"
    using corrupt_cache_fails
      [where storage = "[cacheKey \<mapsto> []]" and st = ?st and env = ?env,
       THEN conjunct2, THEN conjunct2]
      corrupt_cache_fails
      [where storage = "[cacheKey \<mapsto> []]" and st = ?st and env_f = ?env and l = ?madrid,
       THEN conjunct2, THEN conjunct1]
      resolved
    by simp
  from first seq over forced empty show ?thesis by (simp add: Let_def)
qed

text \<open>
  The claim as stated fails for the entry that is the empty string: it is present and is
  not JSON, but \<open>if (cached)\<close> treats it as absent, so the invocation asks for the
  position, calls the reverse-geocoding service, succeeds and overwrites the entry.
\<close>

theorem empty_cache_entry_counterexample:
  "getLocation
     \<lparr>JSON_parse = (\<lambda>s. Inl (JsError ''SyntaxError'' ''Unexpected end of JSON input'')),
      JSON_stringify = (\<lambda>c. ''entry''),
      now_at_check = 1700000300000, now_at_store = 1700000300500,
      geolocation = GeoPosition (Fin 40.4168) (Fin (- 3.7038)),
      reverse_geocode_api = (\<lambda>attempt. Response True 200 (Inr (Some
          \<lparr>informative = [], locality = Some ''Centro'', city = Some ''Madrid'',
           principalSubdivision = None, countryName = Some ''Spain''\<rparr>))),
      ip_api = (\<lambda>attempt. Rejected NetworkError)\<rparr>
     False (\<lparr>error = None, loading = True, location = None\<rparr>, [cacheKey \<mapsto> []])
   = ((\<lparr>error = None, loading = False,
        location = Some \<lparr>latitude = Fin 40.4168, longitude = Fin (- 3.7038),
                         displayName = ''Centro, Madrid, Spain''\<rparr>\<rparr>,
       [cacheKey \<mapsto> ''entry'']),
      [GetCurrentPosition,
       Fetch (ReverseGeocode (Fin 40.4168) (Fin (- 3.7038))) 8000,
       Track ''locationGeolocationSuccess''])"
  by (simp add: getLocation_def cache_lookup_def resolve_location_def precise_location_def
      invalid_coordinates_def fetchLocationName_def fetchLocationName_loop.simps
      geocode_attempt_def finalParts_spec spec_fragments_def street_of_def
      MAX_RETRIES_def TIMEOUT_REVERSE_GEOCODE_def)

section \<open>The weather fallback\<close>

lemma primary_weather_fallback:
  "\<not> primary_accepted env \<Longrightarrow> snd (primary_weather env lat lon) = None"
  by (auto simp: primary_accepted_def primary_weather_def
      split: option.splits http_result.splits sum.splits list.splits if_splits
      elim!: first_element.elims)

lemma primary_weather_events:
  "fst (primary_weather env lat lon) =
     (case weatherApiKey env of
        None \<Rightarrow> []
      | Some key \<Rightarrow> if key = [] then [] else [Fetch (WeatherApi key lat lon) TIMEOUT_WEATHER_API])"
  by (simp add: primary_weather_def split: option.splits)

lemma secondary_weather_record:
  assumes "openmeteo env = Response True status (Inr (Some p))"
    and "om_current p = Some cur" and "om_daily p = Some dly"
    and "temperature_2m_min dly = Some mins" and "temperature_2m_max dly = Some maxs"
  shows "secondary_weather env lat lon =
           ([Fetch (OpenMeteo lat lon) TIMEOUT_WEATHER_API],
            Inr \<lparr>temperature = temperature_2m cur,
                 minTemperature = first_element mins,
                 maxTemperature = first_element maxs,
                 humidity = relative_humidity_2m cur,
                 uvIndex = uv_index cur,
                 weatherCode = weather_code cur,
                 rainProbability = or_default (precipitation_probability cur) (Fin 0),
                 airQuality = Some (Fin 1)\<rparr>)"
  using assms by (simp add: secondary_weather_def)

lemma fetchWeather_fallback:
  assumes "truthy_num lat" and "truthy_num lon" and "\<not> invalid_coordinates lat lon"
    and "snd (primary_weather env lat lon) = None"
    and "secondary_weather env lat lon = (evs, Inr w)"
  shows "fetchWeather env (Some lat) (Some lon) st =
           (st\<lparr>error := None, loading := False, weather := Some w\<rparr>,
            fst (primary_weather env lat lon) @ evs)"
  using assms by (cases "primary_weather env lat lon") (simp add: fetchWeather_def)


lemma or_default_finite: "or_default (Some (Fin r)) (Fin 0) = Some (Fin r)"
  by (simp add: or_default_def)

text \<open>
  What the fallback does where it is reached: for a coordinate that passes the guard and
  the validation, when the primary branch does not pass its tests and the secondary
  provider answers OK with a well-formed payload, the record stored has \<open>airQuality\<close> 1
  and its other fields read from the secondary payload.
\<close>

lemma secondary_fallback:
  assumes coords: "truthy_num lat" "truthy_num lon" "\<not> invalid_coordinates lat lon"
    and primary: "\<not> primary_accepted env"
    and secondary: "openmeteo env = Response True status (Inr (Some p))"
      "secondary_well_formed p"
    and parts: "om_current p = Some cur" "om_daily p = Some dly"
      "temperature_2m_min dly = Some mins" "temperature_2m_max dly = Some maxs"
  shows "\<exists>w. fst (fetchWeather env (Some lat) (Some lon) st) =
                st\<lparr>error := None, loading := False, weather := Some w\<rparr> \<and>
             w = \<lparr>temperature = temperature_2m cur,
                  minTemperature = first_element mins,
                  maxTemperature = first_element maxs,
                  humidity = relative_humidity_2m cur,
                  uvIndex = uv_index cur,
                  weatherCode = weather_code cur,
                  rainProbability = or_default (precipitation_probability cur) (Fin 0),
                  airQuality = Some (Fin 1)\<rparr> \<and>
             airQuality w = Some (Fin 1) \<and>
             fully_populated w \<and>
             (\<forall>r. precipitation_probability cur = Some (Fin r) \<longrightarrow>
                  rainProbability w = Some (Fin r))"
proof -
  let ?w = "\<lparr>temperature = temperature_2m cur,
                  minTemperature = first_element mins,
                  maxTemperature = first_element maxs,
                  humidity = relative_humidity_2m cur,
                  uvIndex = uv_index cur,
                  weatherCode = weather_code cur,
                  rainProbability = or_default (precipitation_probability cur) (Fin 0),
                  airQuality = Some (Fin 1)\<rparr>"
  have sec: "secondary_weather env lat lon =
      ([Fetch (OpenMeteo lat lon) TIMEOUT_WEATHER_API], Inr ?w)"
    by (rule secondary_weather_record [OF secondary(1) parts])
  have "fetchWeather env (Some lat) (Some lon) st =
      (st\<lparr>error := None, loading := False, weather := Some ?w\<rparr>,
       fst (primary_weather env lat lon) @ [Fetch (OpenMeteo lat lon) TIMEOUT_WEATHER_API])"
    by (rule fetchWeather_fallback [OF coords primary_weather_fallback [OF primary] sec])
  then have st: "fst (fetchWeather env (Some lat) (Some lon) st) =
      st\<lparr>error := None, loading := False, weather := Some ?w\<rparr>"
    by simp
  have "or_default (precipitation_probability cur) (Fin 0) \<noteq> None"
    by (cases "precipitation_probability cur") (simp_all add: or_default_def)
  moreover have "first_element mins \<noteq> None" "first_element maxs \<noteq> None"
    "temperature_2m cur \<noteq> None" "relative_humidity_2m cur \<noteq> None"
    "uv_index cur \<noteq> None" "weather_code cur \<noteq> None"
    using secondary(2) parts
    by (auto simp: secondary_well_formed_def split: option.splits list.splits)
  ultimately have full: "fully_populated ?w"
    by (simp add: fully_populated_def)
  have rain: "\<forall>r. precipitation_probability cur = Some (Fin r) \<longrightarrow>
      rainProbability ?w = Some (Fin r)"
    by (simp add: or_default_finite)
  from st full rain show ?thesis by simp
qed

text \<open>The primary request times out; the secondary answers.\<close>

lemma secondary_fallback_example:
  "fst (fetchWeather
      \<lparr>weatherApiKey = Some ''key'', weatherapi = Rejected AbortError,
       openmeteo = Response True 200 (Inr (Some
         \<lparr>om_current = Some
            \<lparr>temperature_2m = Some (Fin 15), relative_humidity_2m = Some (Fin 60),
             uv_index = Some (Fin 3), weather_code = Some (Fin 1),
             precipitation_probability = Some (Fin 20)\<rparr>,
          om_daily = Some
            \<lparr>temperature_2m_max = Some [Fin 18], temperature_2m_min = Some [Fin 10]\<rparr>\<rparr>))\<rparr>
      (Some (Fin 40.4168)) (Some (Fin (- 3.7038)))
      \<lparr>error = None, loading = True, weather = None\<rparr>)
   = \<lparr>error = None, loading = False,
      weather = Some
        \<lparr>temperature = Some (Fin 15), minTemperature = Some (Fin 10),
         maxTemperature = Some (Fin 18), humidity = Some (Fin 60),
         uvIndex = Some (Fin 3), weatherCode = Some (Fin 1),
         rainProbability = Some (Fin 20), airQuality = Some (Fin 1)\<rparr>\<rparr>"
  using secondary_fallback
    [where lat = "Fin 40.4168" and lon = "Fin (- 3.7038)" and status = 200
       and st = "\<lparr>error = None, loading = True, weather = None\<rparr>"
       and env = "\<lparr>weatherApiKey = Some ''key'', weatherapi = Rejected AbortError,
         openmeteo = Response True 200 (Inr (Some
         \<lparr>om_current = Some
            \<lparr>temperature_2m = Some (Fin 15), relative_humidity_2m = Some (Fin 60),
             uv_index = Some (Fin 3), weather_code = Some (Fin 1),
             precipitation_probability = Some (Fin 20)\<rparr>,
          om_daily = Some
            \<lparr>temperature_2m_max = Some [Fin 18], temperature_2m_min = Some [Fin 10]\<rparr>\<rparr>))\<rparr>"
       and p = "\<lparr>om_current = Some
            \<lparr>temperature_2m = Some (Fin 15), relative_humidity_2m = Some (Fin 60),
             uv_index = Some (Fin 3), weather_code = Some (Fin 1),
             precipitation_probability = Some (Fin 20)\<rparr>,
          om_daily = Some
            \<lparr>temperature_2m_max = Some [Fin 18], temperature_2m_min = Some [Fin 10]\<rparr>\<rparr>"
       and cur = "\<lparr>temperature_2m = Some (Fin 15), relative_humidity_2m = Some (Fin 60),
             uv_index = Some (Fin 3), weather_code = Some (Fin 1),
             precipitation_probability = Some (Fin 20)\<rparr>"
       and dly = "\<lparr>temperature_2m_max = Some [Fin 18], temperature_2m_min = Some [Fin 10]\<rparr>"
       and mins = "[Fin 10]" and maxs = "[Fin 18]"]
  by (simp add: invalid_coordinates_def primary_accepted_def
      secondary_well_formed_def or_default_def)


section \<open>Records with undefined fields\<close>

lemma primary_weather_record:
  assumes "weatherApiKey env = Some key" and "key \<noteq> []"
    and "weatherapi env = Response True status (Inr (Some d))"
    and "wa_current d = Some cur" and "first_element (wa_forecastday d) = Some (Some day)"
    and "condition cur = Some code"
  shows "primary_weather env lat lon =
           ([Fetch (WeatherApi key lat lon) TIMEOUT_WEATHER_API],
            Some \<lparr>temperature = temp_c cur,
                  minTemperature = mintemp_c day,
                  maxTemperature = maxtemp_c day,
                  humidity = current_humidity cur,
                  uvIndex = uv cur,
                  weatherCode = code,
                  rainProbability = daily_chance_of_rain day,
                  airQuality =
                    or_default (case air_quality cur of None \<Rightarrow> None | Some q \<Rightarrow> q) (Fin 1)\<rparr>)"
  using assms by (simp add: primary_weather_def)

lemma fetchWeather_primary:
  assumes "truthy_num lat" and "truthy_num lon" and "\<not> invalid_coordinates lat lon"
    and "primary_weather env lat lon = (evs, Some w)"
  shows "fetchWeather env (Some lat) (Some lon) st =
           (st\<lparr>error := None, loading := False, weather := Some w\<rparr>, evs)"
  using assms by (simp add: fetchWeather_def)

lemma primary_accepted_parts:
  assumes acc: "primary_accepted env"
  obtains key status d cur day code where
    "weatherApiKey env = Some key" "key \<noteq> []"
    "weatherapi env = Response True status (Inr (Some d))" "wa_current d = Some cur"
    "first_element (wa_forecastday d) = Some (Some day)" "condition cur = Some code"
proof -
  from acc obtain key where key: "weatherApiKey env = Some key" "key \<noteq> []"
    by (cases "weatherApiKey env") (simp_all add: primary_accepted_def)
  from acc key obtain status body where resp: "weatherapi env = Response True status body"
    by (cases "weatherapi env") (auto simp: primary_accepted_def)
  from acc key resp obtain d where body: "body = Inr (Some d)"
    by (cases body) (auto simp: primary_accepted_def split: option.splits)
  from acc key resp body obtain cur where cur: "wa_current d = Some cur"
    by (cases "wa_current d") (simp_all add: primary_accepted_def)
  from acc key resp body cur obtain day where
    day: "first_element (wa_forecastday d) = Some (Some day)"
    by (cases "first_element (wa_forecastday d)")
       (auto simp: primary_accepted_def split: option.splits)
  from acc key resp body cur day obtain code where "condition cur = Some code"
    by (cases "condition cur") (simp_all add: primary_accepted_def)
  with key resp body cur day show thesis by (auto intro: that)
qed

lemma primary_well_formed_parts:
  assumes "primary_well_formed d" and "wa_current d = Some cur"
    and "first_element (wa_forecastday d) = Some (Some day)"
  shows "temp_c cur \<noteq> None \<and> current_humidity cur \<noteq> None \<and> uv cur \<noteq> None \<and>
         (\<exists>code. condition cur = Some (Some code)) \<and>
         mintemp_c day \<noteq> None \<and> maxtemp_c day \<noteq> None \<and> daily_chance_of_rain day \<noteq> None"
  using assms by (simp add: primary_well_formed_def split: option.splits)

lemma primary_well_formed_intro:
  assumes "wa_current d = Some cur"
    and "first_element (wa_forecastday d) = Some (Some day)"
    and "temp_c cur \<noteq> None" "current_humidity cur \<noteq> None" "uv cur \<noteq> None"
    and "condition cur = Some (Some code)"
    and "mintemp_c day \<noteq> None" "maxtemp_c day \<noteq> None" "daily_chance_of_rain day \<noteq> None"
  shows "primary_well_formed d"
  using assms by (simp add: primary_well_formed_def)

lemma primary_success_accepted:
  assumes "primary_well_formed_success env"
  shows "primary_accepted env"
proof -
  from assms obtain key where key: "weatherApiKey env = Some key" "key \<noteq> []"
    by (cases "weatherApiKey env") (simp_all add: primary_well_formed_success_def)
  from assms key obtain status body where resp: "weatherapi env = Response True status body"
    by (cases "weatherapi env") (auto simp: primary_well_formed_success_def)
  from assms key resp obtain d where body: "body = Inr (Some d)" and wf: "primary_well_formed d"
    by (cases body) (auto simp: primary_well_formed_success_def split: option.splits)
  from wf obtain cur where cur: "wa_current d = Some cur"
    by (cases "wa_current d") (simp_all add: primary_well_formed_def)
  from wf cur obtain day where day: "first_element (wa_forecastday d) = Some (Some day)"
    by (cases "first_element (wa_forecastday d)")
       (auto simp: primary_well_formed_def split: option.splits)
  from primary_well_formed_parts [OF wf cur day] obtain code
    where "condition cur = Some (Some code)" by blast
  with key resp body cur day show ?thesis
    by (simp add: primary_accepted_def)
qed

lemma accepted_not_well_formed:
  assumes "\<not> primary_well_formed_success env"
    and "weatherApiKey env = Some key" "key \<noteq> []"
    and "weatherapi env = Response True status (Inr (Some d))" "wa_current d = Some cur"
    and "first_element (wa_forecastday d) = Some (Some day)" "condition cur = Some code"
  shows "temp_c cur = None \<or> current_humidity cur = None \<or> uv cur = None \<or> code = None \<or>
         mintemp_c day = None \<or> maxtemp_c day = None \<or> daily_chance_of_rain day = None"
proof (rule ccontr)
  assume "\<not> ?thesis"
  then have "primary_well_formed d"
    using assms(5,6,7) by (auto intro: primary_well_formed_intro)
  with assms(2,3,4) have "primary_well_formed_success env"
    by (simp add: primary_well_formed_success_def)
  with assms(1) show False by contradiction
qed

text \<open>
  C5 (the code at its failing inputs). The claim says that no partial record is ever
  stored. \<open>fetchWeather\<close> checks only that \<open>current\<close> and \<open>daily\<close> (or \<open>current\<close> and the first
  forecast day) are present: when a field inside them is missing, or an array of the
  secondary payload is empty, the record is stored all the same, with that field
  undefined.
\<close>

theorem partial_record_stored:
  "(truthy_num lat \<and> truthy_num lon \<and> \<not> invalid_coordinates lat lon \<and>
    \<not> primary_well_formed_success env \<and>
    openmeteo env = Response True status (Inr (Some p)) \<and>
    om_current p = Some cur \<and> om_daily p = Some dly \<and>
    temperature_2m_min dly = Some mins \<and> temperature_2m_max dly = Some maxs \<and>
    (temperature_2m cur = None \<or> relative_humidity_2m cur = None \<or> uv_index cur = None \<or>
     weather_code cur = None \<or> mins = [] \<or> maxs = []) \<longrightarrow>
      (\<exists>w. weather (fst (fetchWeather env (Some lat) (Some lon) st)) = Some w \<and>
           \<not> fully_populated w)) \<and>
   (truthy_num lat \<and> truthy_num lon \<and> \<not> invalid_coordinates lat lon \<and>
    weatherApiKey env = Some key \<and> key \<noteq> [] \<and>
    weatherapi env = Response True status (Inr (Some d)) \<and>
    wa_current d = Some pcur \<and> first_element (wa_forecastday d) = Some (Some day) \<and>
    condition pcur = Some code \<and>
    (temp_c pcur = None \<or> current_humidity pcur = None \<or> uv pcur = None \<or> code = None \<or>
     mintemp_c day = None \<or> maxtemp_c day = None \<or> daily_chance_of_rain day = None) \<longrightarrow>
      (\<exists>w. weather (fst (fetchWeather env (Some lat) (Some lon) st)) = Some w \<and>
           \<not> fully_populated w))"
proof (intro conjI impI)
  assume h: "truthy_num lat \<and> truthy_num lon \<and> \<not> invalid_coordinates lat lon \<and>
    \<not> primary_well_formed_success env \<and>
    openmeteo env = Response True status (Inr (Some p)) \<and>
    om_current p = Some cur \<and> om_daily p = Some dly \<and>
    temperature_2m_min dly = Some mins \<and> temperature_2m_max dly = Some maxs \<and>
    (temperature_2m cur = None \<or> relative_humidity_2m cur = None \<or> uv_index cur = None \<or>
     weather_code cur = None \<or> mins = [] \<or> maxs = [])"
  show "\<exists>w. weather (fst (fetchWeather env (Some lat) (Some lon) st)) = Some w \<and>
           \<not> fully_populated w"
  proof (cases "primary_accepted env")
    case True
    then obtain k s d c dy cd where parts: "weatherApiKey env = Some k" "k \<noteq> []"
        "weatherapi env = Response True s (Inr (Some d))" "wa_current d = Some c"
        "first_element (wa_forecastday d) = Some (Some dy)" "condition c = Some cd"
      by (rule primary_accepted_parts)
    let ?w = "\<lparr>temperature = temp_c c,
                  minTemperature = mintemp_c dy,
                  maxTemperature = maxtemp_c dy,
                  humidity = current_humidity c,
                  uvIndex = uv c,
                  weatherCode = cd,
                  rainProbability = daily_chance_of_rain dy,
                  airQuality =
                    or_default (case air_quality c of None \<Rightarrow> None | Some q \<Rightarrow> q) (Fin 1)\<rparr>"
    have "primary_weather env lat lon =
        ([Fetch (WeatherApi k lat lon) TIMEOUT_WEATHER_API], Some ?w)"
      by (rule primary_weather_record [OF parts])
    with h have "weather (fst (fetchWeather env (Some lat) (Some lon) st)) = Some ?w"
      using fetchWeather_primary [of lat lon env _ ?w st] by simp
    moreover from h have "\<not> primary_well_formed_success env" by simp
    from accepted_not_well_formed [OF this parts] have "\<not> fully_populated ?w"
      by (auto simp: fully_populated_def)
    ultimately show ?thesis by blast
  next
    case False
    let ?w = "\<lparr>temperature = temperature_2m cur,
                  minTemperature = first_element mins,
                  maxTemperature = first_element maxs,
                  humidity = relative_humidity_2m cur,
                  uvIndex = uv_index cur,
                  weatherCode = weather_code cur,
                  rainProbability = or_default (precipitation_probability cur) (Fin 0),
                  airQuality = Some (Fin 1)\<rparr>"
    from h have sec: "secondary_weather env lat lon =
        ([Fetch (OpenMeteo lat lon) TIMEOUT_WEATHER_API], Inr ?w)"
      using secondary_weather_record [of env status p cur dly mins maxs lat lon] by blast
    from False have "snd (primary_weather env lat lon) = None"
      by (rule primary_weather_fallback)
    with h sec have "weather (fst (fetchWeather env (Some lat) (Some lon) st)) = Some ?w"
      using fetchWeather_fallback [of lat lon env _ ?w st] by simp
    moreover from h have "\<not> fully_populated ?w"
      by (auto simp: fully_populated_def)
    ultimately show ?thesis by blast
  qed
next
  assume h: "truthy_num lat \<and> truthy_num lon \<and> \<not> invalid_coordinates lat lon \<and>
    weatherApiKey env = Some key \<and> key \<noteq> [] \<and>
    weatherapi env = Response True status (Inr (Some d)) \<and>
    wa_current d = Some pcur \<and> first_element (wa_forecastday d) = Some (Some day) \<and>
    condition pcur = Some code \<and>
    (temp_c pcur = None \<or> current_humidity pcur = None \<or> uv pcur = None \<or> code = None \<or>
     mintemp_c day = None \<or> maxtemp_c day = None \<or> daily_chance_of_rain day = None)"
  let ?w = "\<lparr>temperature = temp_c pcur,
                  minTemperature = mintemp_c day,
                  maxTemperature = maxtemp_c day,
                  humidity = current_humidity pcur,
                  uvIndex = uv pcur,
                  weatherCode = code,
                  rainProbability = daily_chance_of_rain day,
                  airQuality =
                    or_default (case air_quality pcur of None \<Rightarrow> None | Some q \<Rightarrow> q) (Fin 1)\<rparr>"
  from h have "primary_weather env lat lon =
      ([Fetch (WeatherApi key lat lon) TIMEOUT_WEATHER_API], Some ?w)"
    using primary_weather_record [of env key status d pcur day code lat lon] by blast
  with h have "weather (fst (fetchWeather env (Some lat) (Some lon) st)) = Some ?w"
    using fetchWeather_primary [of lat lon env _ ?w st] by simp
  moreover from h have "\<not> fully_populated ?w"
    by (auto simp: fully_populated_def)
  ultimately show "\<exists>w. weather (fst (fetchWeather env (Some lat) (Some lon) st)) = Some w \<and>
           \<not> fully_populated w"
    by blast
qed

text \<open>A secondary payload with no \<open>uv_index\<close> and an empty array of minima; a primary
  payload with no \<open>temp_c\<close> and no \<open>daily_chance_of_rain\<close>.\<close>

theorem partial_record_stored_witness:
  "(let st = \<lparr>error = None, loading = True, weather = None\<rparr>;
        secondary_only =
          \<lparr>weatherApiKey = None, weatherapi = Rejected NetworkError,
           openmeteo = Response True 200 (Inr (Some
             \<lparr>om_current = Some
                \<lparr>temperature_2m = Some (Fin 15), relative_humidity_2m = Some (Fin 60),
                 uv_index = None, weather_code = Some (Fin 1),
                 precipitation_probability = None\<rparr>,
              om_daily = Some
                \<lparr>temperature_2m_max = Some [Fin 18], temperature_2m_min = Some []\<rparr>\<rparr>))\<rparr>;
        primary =
          \<lparr>weatherApiKey = Some ''key'',
           weatherapi = Response True 200 (Inr (Some
             \<lparr>wa_current = Some
                \<lparr>temp_c = None, current_humidity = Some (Fin 60), uv = Some (Fin 3),
                 condition = Some (Some (Fin 1000)), air_quality = None\<rparr>,
              wa_forecastday =
                [Some \<lparr>mintemp_c = Some (Fin 10), maxtemp_c = Some (Fin 18),
                       daily_chance_of_rain = None\<rparr>]\<rparr>)),
           openmeteo = Rejected NetworkError\<rparr>
    in (\<exists>w. weather (fst (fetchWeather secondary_only
                (Some (Fin 40.4168)) (Some (Fin (- 3.7038))) st)) = Some w \<and>
             uvIndex w = None \<and> minTemperature w = None \<and> \<not> fully_populated w) \<and>
       (\<exists>w. weather (fst (fetchWeather primary
                (Some (Fin 40.4168)) (Some (Fin (- 3.7038))) st)) = Some w \<and>
             temperature w = None \<and> rainProbability w = None \<and> \<not> fully_populated w))"
proof -
  let ?st = "\<lparr>error = None, loading = True, weather = None\<rparr>"
  let ?cur = "\<lparr>temperature_2m = Some (Fin 15), relative_humidity_2m = Some (Fin 60),
                 uv_index = None, weather_code = Some (Fin 1),
                 precipitation_probability = None\<rparr>"
  let ?dly = "\<lparr>temperature_2m_max = Some [Fin 18], temperature_2m_min = Some []\<rparr>"
  let ?p = "\<lparr>om_current = Some ?cur, om_daily = Some ?dly\<rparr>"
  let ?sec = "\<lparr>weatherApiKey = None, weatherapi = Rejected NetworkError,
           openmeteo = Response True 200 (Inr (Some ?p))\<rparr>"
  let ?pcur = "\<lparr>temp_c = None, current_humidity = Some (Fin 60), uv = Some (Fin 3),
                 condition = Some (Some (Fin 1000)), air_quality = None\<rparr>"
  let ?day = "\<lparr>mintemp_c = Some (Fin 10), maxtemp_c = Some (Fin 18),
                       daily_chance_of_rain = None\<rparr>"
  let ?d = "\<lparr>wa_current = Some ?pcur, wa_forecastday = [Some ?day]\<rparr>"
  let ?prim = "\<lparr>weatherApiKey = Some ''key'',
           weatherapi = Response True 200 (Inr (Some ?d)),
           openmeteo = Rejected NetworkError\<rparr>"
  let ?lat = "Fin 40.4168" and ?lon = "Fin (- 3.7038)"
  have valid: "\<not> invalid_coordinates ?lat ?lon"
    by (simp add: invalid_coordinates_def)
  have nokey: "\<not> primary_well_formed_success ?sec"
    by (simp add: primary_well_formed_success_def)
  have a: "\<exists>w. weather (fst (fetchWeather ?sec (Some ?lat) (Some ?lon) ?st)) = Some w \<and>
      \<not> fully_populated w"
    using partial_record_stored
      [where lat = ?lat and lon = ?lon and status = 200 and st = ?st and env = ?sec
         and p = ?p and cur = ?cur and dly = ?dly and mins = "[]" and maxs = "[Fin 18]",
       THEN conjunct1]
      valid nokey
    by simp
  have b: "\<exists>w. weather (fst (fetchWeather ?prim (Some ?lat) (Some ?lon) ?st)) = Some w \<and>
      \<not> fully_populated w"
    using partial_record_stored
      [where lat = ?lat and lon = ?lon and status = 200 and st = ?st and env = ?prim
         and key = "''key''" and d = ?d and pcur = ?pcur and day = ?day
         and code = "Some (Fin 1000)",
       THEN conjunct2]
      valid
    by simp
  have sec: "weather (fst (fetchWeather ?sec (Some ?lat) (Some ?lon) ?st)) =
      Some \<lparr>temperature = Some (Fin 15), minTemperature = None,
             maxTemperature = Some (Fin 18), humidity = Some (Fin 60),
             uvIndex = None, weatherCode = Some (Fin 1),
             rainProbability = Some (Fin 0), airQuality = Some (Fin 1)\<rparr>"
    by (simp add: fetchWeather_def invalid_coordinates_def primary_weather_def
        secondary_weather_def or_default_def)
  have prim: "weather (fst (fetchWeather ?prim (Some ?lat) (Some ?lon) ?st)) =
      Some \<lparr>temperature = None, minTemperature = Some (Fin 10),
             maxTemperature = Some (Fin 18), humidity = Some (Fin 60),
             uvIndex = Some (Fin 3), weatherCode = Some (Fin 1000),
             rainProbability = None, airQuality = Some (Fin 1)\<rparr>"
    by (simp add: fetchWeather_def invalid_coordinates_def primary_weather_def or_default_def)
  from a sec have a': "\<exists>w. weather (fst (fetchWeather ?sec (Some ?lat) (Some ?lon) ?st)) = Some w \<and>
      uvIndex w = None \<and> minTemperature w = None \<and> \<not> fully_populated w"
    by auto
  from b prim have b': "\<exists>w. weather (fst (fetchWeather ?prim (Some ?lat) (Some ?lon) ?st)) = Some w \<and>
      temperature w = None \<and> rainProbability w = None \<and> \<not> fully_populated w"
    by auto
  from a' b' show ?thesis by (simp add: Let_def)
qed

section \<open>Where the fallback is not reached\<close>

text \<open>
  C3 (the code at its failing inputs). The claim says that whenever the primary provider
  does not yield a well-formed success and the secondary returns a well-formed payload, the
  resolver returns a record with \<open>airQuality\<close> 1 and the other fields from the secondary
  payload. Where the fallback is reached it does (\<open>secondary_fallback\<close>). It is not reached
  in two cases. With a valid coordinate whose latitude or longitude is 0, the guard
  \<open>if (!latitude || !longitude) return\<close> ends the call before any request: no record. With a
  primary payload that is malformed but has \<open>current\<close>, its \<open>condition\<close> and a first forecast
  day, the primary branch keeps its own record, fields undefined, and the secondary
  provider is never asked.
\<close>

theorem fallback_not_reached:
  "(\<not> invalid_coordinates (Fin 0) lon \<and> \<not> primary_well_formed_success env \<and>
    openmeteo env = Response True status (Inr (Some p)) \<and> secondary_well_formed p \<longrightarrow>
      fetchWeather env (Some (Fin 0)) (Some lon) st = (st, [])) \<and>
   (\<not> invalid_coordinates lat (Fin 0) \<and> \<not> primary_well_formed_success env \<and>
    openmeteo env = Response True status (Inr (Some p)) \<and> secondary_well_formed p \<longrightarrow>
      fetchWeather env (Some lat) (Some (Fin 0)) st = (st, [])) \<and>
   (truthy_num lat \<and> truthy_num lon \<and> \<not> invalid_coordinates lat lon \<and>
    weatherApiKey env = Some key \<and> primary_accepted env \<and>
    \<not> primary_well_formed_success env \<and>
    openmeteo env = Response True status (Inr (Some p)) \<and> secondary_well_formed p \<longrightarrow>
      snd (fetchWeather env (Some lat) (Some lon) st) =
        [Fetch (WeatherApi key lat lon) 10000] \<and>
      (\<exists>w. weather (fst (fetchWeather env (Some lat) (Some lon) st)) = Some w \<and>
           \<not> fully_populated w))"
proof (intro conjI impI)
  show "fetchWeather env (Some (Fin 0)) (Some lon) st = (st, [])"
    by (simp add: fetchWeather_def)
  show "fetchWeather env (Some lat) (Some (Fin 0)) st = (st, [])"
    by (simp add: fetchWeather_def)
next
  assume h: "truthy_num lat \<and> truthy_num lon \<and> \<not> invalid_coordinates lat lon \<and>
    weatherApiKey env = Some key \<and> primary_accepted env \<and>
    \<not> primary_well_formed_success env \<and>
    openmeteo env = Response True status (Inr (Some p)) \<and> secondary_well_formed p"
  then have acc: "primary_accepted env" and nwf: "\<not> primary_well_formed_success env"
    by simp_all
  from acc obtain k s d c dy cd where parts: "weatherApiKey env = Some k" "k \<noteq> []"
      "weatherapi env = Response True s (Inr (Some d))" "wa_current d = Some c"
      "first_element (wa_forecastday d) = Some (Some dy)" "condition c = Some cd"
    by (rule primary_accepted_parts)
  let ?w = "\<lparr>temperature = temp_c c,
                minTemperature = mintemp_c dy,
                maxTemperature = maxtemp_c dy,
                humidity = current_humidity c,
                uvIndex = uv c,
                weatherCode = cd,
                rainProbability = daily_chance_of_rain dy,
                airQuality =
                  or_default (case air_quality c of None \<Rightarrow> None | Some q \<Rightarrow> q) (Fin 1)\<rparr>"
  from h parts(1) have k: "k = key" by simp
  have "primary_weather env lat lon =
      ([Fetch (WeatherApi k lat lon) TIMEOUT_WEATHER_API], Some ?w)"
    by (rule primary_weather_record [OF parts])
  with h have run: "fetchWeather env (Some lat) (Some lon) st =
      (st\<lparr>error := None, loading := False, weather := Some ?w\<rparr>,
       [Fetch (WeatherApi k lat lon) TIMEOUT_WEATHER_API])"
    using fetchWeather_primary [of lat lon env _ ?w st] by simp
  from accepted_not_well_formed [OF nwf parts] have partial: "\<not> fully_populated ?w"
    by (auto simp: fully_populated_def)
  from run k show "snd (fetchWeather env (Some lat) (Some lon) st) =
        [Fetch (WeatherApi key lat lon) 10000]"
    by (simp add: TIMEOUT_WEATHER_API_def)
  from run partial show "\<exists>w. weather (fst (fetchWeather env (Some lat) (Some lon) st)) = Some w \<and>
           \<not> fully_populated w"
    by simp
qed

text \<open>An unreachable primary provider with a point on the equator and a point on the
  prime meridian; a primary payload with no field but the condition's code.\<close>

theorem fallback_not_reached_witness:
  "(let st = \<lparr>error = None, loading = True, weather = None\<rparr>;
        good = Response True 200 (Inr (Some
             \<lparr>om_current = Some
                \<lparr>temperature_2m = Some (Fin 15), relative_humidity_2m = Some (Fin 60),
                 uv_index = Some (Fin 3), weather_code = Some (Fin 1),
                 precipitation_probability = Some (Fin 20)\<rparr>,
              om_daily = Some
                \<lparr>temperature_2m_max = Some [Fin 18], temperature_2m_min = Some [Fin 10]\<rparr>\<rparr>));
        unreachable =
          \<lparr>weatherApiKey = Some ''key'', weatherapi = Rejected NetworkError, openmeteo = good\<rparr>;
        malformed =
          \<lparr>weatherApiKey = Some ''key'',
           weatherapi = Response True 200 (Inr (Some
             \<lparr>wa_current = Some
                \<lparr>temp_c = None, current_humidity = None, uv = None,
                 condition = Some (Some (Fin 1000)), air_quality = None\<rparr>,
              wa_forecastday =
                [Some \<lparr>mintemp_c = None, maxtemp_c = None, daily_chance_of_rain = None\<rparr>]\<rparr>)),
           openmeteo = good\<rparr>
    in fetchWeather unreachable (Some (Fin 0)) (Some (Fin (- 78.4678))) st = (st, []) \<and>
       fetchWeather unreachable (Some (Fin 51.4779)) (Some (Fin 0)) st = (st, []) \<and>
       snd (fetchWeather malformed (Some (Fin 40.4168)) (Some (Fin (- 3.7038))) st) =
         [Fetch (WeatherApi ''key'' (Fin 40.4168) (Fin (- 3.7038))) 10000] \<and>
       (\<exists>w. weather (fst (fetchWeather malformed
                (Some (Fin 40.4168)) (Some (Fin (- 3.7038))) st)) = Some w \<and>
            \<not> fully_populated w))"
proof -
  let ?st = "\<lparr>error = None, loading = True, weather = None\<rparr>"
  let ?p = "\<lparr>om_current = Some
                \<lparr>temperature_2m = Some (Fin 15), relative_humidity_2m = Some (Fin 60),
                 uv_index = Some (Fin 3), weather_code = Some (Fin 1),
                 precipitation_probability = Some (Fin 20)\<rparr>,
              om_daily = Some
                \<lparr>temperature_2m_max = Some [Fin 18], temperature_2m_min = Some [Fin 10]\<rparr>\<rparr>"
  let ?good = "Response True 200 (Inr (Some ?p))"
  let ?unreachable =
    "\<lparr>weatherApiKey = Some ''key'', weatherapi = Rejected NetworkError, openmeteo = ?good\<rparr>"
  let ?malformed =
    "\<lparr>weatherApiKey = Some ''key'',
           weatherapi = Response True 200 (Inr (Some
             \<lparr>wa_current = Some
                \<lparr>temp_c = None, current_humidity = None, uv = None,
                 condition = Some (Some (Fin 1000)), air_quality = None\<rparr>,
              wa_forecastday =
                [Some \<lparr>mintemp_c = None, maxtemp_c = None, daily_chance_of_rain = None\<rparr>]\<rparr>)),
           openmeteo = ?good\<rparr>"
  have wf: "secondary_well_formed ?p"
    by (simp add: secondary_well_formed_def)
  have n1: "\<not> primary_well_formed_success ?unreachable"
    by (simp add: primary_well_formed_success_def)
  have n2: "\<not> primary_well_formed_success ?malformed"
    by (simp add: primary_well_formed_success_def primary_well_formed_def)
  have acc: "primary_accepted ?malformed"
    by (simp add: primary_accepted_def)
  have v1: "\<not> invalid_coordinates (Fin 0) (Fin (- 78.4678))"
    and v2: "\<not> invalid_coordinates (Fin 51.4779) (Fin 0)"
    and v3: "\<not> invalid_coordinates (Fin 40.4168) (Fin (- 3.7038))"
    by (simp_all add: invalid_coordinates_def)
  have a: "fetchWeather ?unreachable (Some (Fin 0)) (Some (Fin (- 78.4678))) ?st = (?st, [])"
    using fallback_not_reached
      [where env = ?unreachable and lon = "Fin (- 78.4678)" and status = 200 and p = ?p
         and st = ?st, THEN conjunct1] wf n1 v1
    by simp
  have b: "fetchWeather ?unreachable (Some (Fin 51.4779)) (Some (Fin 0)) ?st = (?st, [])"
    using fallback_not_reached
      [where env = ?unreachable and lat = "Fin 51.4779" and status = 200 and p = ?p
         and st = ?st, THEN conjunct2, THEN conjunct1] wf n1 v2
    by simp
  have c: "snd (fetchWeather ?malformed (Some (Fin 40.4168)) (Some (Fin (- 3.7038))) ?st) =
         [Fetch (WeatherApi ''key'' (Fin 40.4168) (Fin (- 3.7038))) 10000] \<and>
       (\<exists>w. weather (fst (fetchWeather ?malformed
                (Some (Fin 40.4168)) (Some (Fin (- 3.7038))) ?st)) = Some w \<and>
            \<not> fully_populated w)"
    using fallback_not_reached
      [where env = ?malformed and lat = "Fin 40.4168" and lon = "Fin (- 3.7038)"
         and key = "''key''" and status = 200 and p = ?p and st = ?st,
       THEN conjunct2, THEN conjunct2] wf n2 acc v3
    by simp
  from a b c show ?thesis by (simp add: Let_def)
qed

section \<open>The guard on the coordinate\<close>

lemma fetchWeather_undefined:
  "latitude_arg = None \<or> longitude_arg = None \<Longrightarrow>
   fetchWeather env latitude_arg longitude_arg st = (st, [])"
  by (auto simp: fetchWeather_def)

lemma fetchWeather_invalid:
  assumes "truthy_num lat" and "truthy_num lon" and "invalid_coordinates lat lon"
  shows "fetchWeather env (Some lat) (Some lon) st =
           (st\<lparr>error := Some ''Temp. N/A: Invalid coordinates'', loading := False\<rparr>,
            [Toast (WeatherErrorToast ''Invalid coordinates'')])"
  using assms by (simp add: fetchWeather_def weather_failed_def Error_def)

lemma fetchLocationName_invalid:
  "invalid_coordinates lat lon \<Longrightarrow>
   fetchLocationName net lat lon =
     ([], Inl (Error ''Invalid coordinates for reverse geocoding''))"
  by (simp add: fetchLocationName_def)

lemma out_of_range_invalid:
  "\<bar>la\<bar> > 90 \<or> \<bar>lo\<bar> > 180 \<Longrightarrow> invalid_coordinates (Fin la) (Fin lo)"
  by (auto simp: invalid_coordinates_def)

lemma non_finite_invalid:
  "\<not> isFinite lat \<or> \<not> isFinite lon \<Longrightarrow> invalid_coordinates lat lon"
  by (auto simp: invalid_coordinates_def)

text \<open>
  C8 (the code at its failing input). The claim says that the resolver proceeds for every
  coordinate that is not null, latitude 0 and longitude 0 included. The guard
  \<open>if (!latitude || !longitude) return\<close> tests truthiness: with a latitude or a longitude
  of 0 the function returns at once, the state untouched and nothing requested.
\<close>

theorem zero_coordinate_noop:
  "fetchWeather env (Some (Fin 0)) lon_arg st = (st, []) \<and>
   fetchWeather env lat_arg (Some (Fin 0)) st = (st, [])"
  by (simp add: fetchWeather_def)

text \<open>A point on the equator, with a secondary provider that would have answered.\<close>

theorem zero_coordinate_noop_witness:
  "fetchWeather
      \<lparr>weatherApiKey = None, weatherapi = Rejected NetworkError,
       openmeteo = Response True 200 (Inr (Some
         \<lparr>om_current = Some
            \<lparr>temperature_2m = Some (Fin 15), relative_humidity_2m = Some (Fin 60),
             uv_index = Some (Fin 3), weather_code = Some (Fin 1),
             precipitation_probability = Some (Fin 20)\<rparr>,
          om_daily = Some
            \<lparr>temperature_2m_max = Some [Fin 18], temperature_2m_min = Some [Fin 10]\<rparr>\<rparr>))\<rparr>
      (Some (Fin 0)) (Some (Fin (- 78.4678)))
      \<lparr>error = None, loading = True, weather = None\<rparr>
   = (\<lparr>error = None, loading = True, weather = None\<rparr>, [])"
  using zero_coordinate_noop [THEN conjunct1] by simp

text \<open>
  C4 (the code at its failing inputs). The claim says that the Weather Resolver fails with
  an invalid-coordinate error for every out-of-range or non-finite coordinate. Reverse
  geocoding does (\<open>fetchLocationName_invalid\<close>), and so does \<open>fetchWeather\<close> when both components
  are truthy (\<open>fetchWeather_invalid\<close>); but the same guard returns silently, with no
  error set, when the invalid coordinate has a component that is 0 or NaN.
\<close>

theorem invalid_coordinate_silent_noop:
  "invalid_coordinates (Fin 95) (Fin 0) \<and>
   fetchWeather env (Some (Fin 95)) (Some (Fin 0)) st = (st, []) \<and>
   invalid_coordinates NaN lon \<and>
   fetchWeather env (Some NaN) (Some lon) st = (st, [])"
  by (simp add: fetchWeather_def invalid_coordinates_def)

text \<open>Latitude 95 with longitude 0.\<close>

theorem invalid_coordinate_silent_noop_witness:
  "fetchWeather
      \<lparr>weatherApiKey = None, weatherapi = Rejected NetworkError,
       openmeteo = Rejected NetworkError\<rparr>
      (Some (Fin 95)) (Some (Fin 0))
      \<lparr>error = None, loading = True, weather = None\<rparr>
   = (\<lparr>error = None, loading = True, weather = None\<rparr>, [])"
  using invalid_coordinate_silent_noop [THEN conjunct2, THEN conjunct1] by simp

section \<open>The interface of the hooks\<close>

text \<open>
  C9 (as amended). The Weather Resolver hands the UI layer \<open>weather\<close>, \<open>error\<close>, \<open>loading\<close> and
  \<open>retry\<close>, where \<open>retry\<close> runs \<open>fetchWeather\<close>. The Location Resolver hands it \<open>location\<close>,
  \<open>error\<close> and \<open>loading\<close> only: no \<open>retry\<close> and no other function, so a caller can trigger
  neither a retry nor a forced refresh. The hook itself runs \<open>getLocation\<close> unforced when it
  mounts and forced from its periodic timer, which exists only when \<open>refreshInterval > 0\<close>.
\<close>

theorem hook_interfaces:
  "map fst (useWeather_returns env la lo wst) = [''weather'', ''error'', ''loading'', ''retry''] \<and>
   map_of (useWeather_returns env la lo wst) ''retry'' = Some (RetryCallback (fetchWeather env la lo)) \<and>
   map fst (useAppLocation_returns lst) = [''location'', ''error'', ''loading''] \<and>
   map_of (useAppLocation_returns lst) ''retry'' = None \<and>
   filter (is_callback \<circ> snd) (useAppLocation_returns lst) = [] \<and>
   map snd (useAppLocation_effects refreshInterval) =
     (if refreshInterval > 0 then [False, True] else [False])"
  by (simp add: useWeather_returns_def useAppLocation_returns_def useAppLocation_effects_def)

text \<open>The weather hook's \<open>retry\<close>, and the location hook's effects with an interval of 5
  minutes and with the interval disabled.\<close>

theorem hook_interfaces_witness:
  "map_of (useWeather_returns
      \<lparr>weatherApiKey = None, weatherapi = Rejected NetworkError,
       openmeteo = Rejected NetworkError\<rparr> None None
      \<lparr>error = None, loading = True, weather = None\<rparr>) ''retry''
     = Some (RetryCallback (fetchWeather
        \<lparr>weatherApiKey = None, weatherapi = Rejected NetworkError,
         openmeteo = Rejected NetworkError\<rparr> None None)) \<and>
   map snd (useAppLocation_effects 5) = [False, True] \<and>
   map snd (useAppLocation_effects 0) = [False]"
  using hook_interfaces [where refreshInterval = 5] hook_interfaces [where refreshInterval = 0]
  by simp

text \<open>The claim as stated fails: the object \<open>useAppLocation\<close> returns has no member
  \<open>retry\<close>.\<close>

theorem location_hook_no_retry_counterexample:
  "map_of (useAppLocation_returns \<lparr>error = None, loading = True, location = None\<rparr>) ''retry''
     = None"
  by (simp add: useAppLocation_returns_def)

end
